theory Spec2Isabelle
  imports Complex_Main
begin

section \<open>Data model of the particle core\<close>

text \<open>
  The development embeds \<^verbatim>\<open>Particle.ts\<close> (the particle class of the engine): the
  placement algorithm \<^verbatim>\<open>calcPosition\<close>/\<^verbatim>\<open>checkOverlap\<close>/\<^verbatim>\<open>fixOutMode\<close>, the
  destruction path \<^verbatim>\<open>destroy\<close>/\<^verbatim>\<open>split\<close>, and the parts of the constructor that
  fix the shape, the size animation state, the position and the z bookkeeping of the
  owning particle set.

  JavaScript numbers are modelled as \<^typ>\<open>real\<close> where they are coordinates, sizes or
  rates, and as \<^typ>\<open>int\<close> where they are counters (ids, split counts, retry limits).
  Every draw of \<^verbatim>\<open>Math.random()\<close> and every result of a utility that draws one is an
  explicit input of the model. Calls into code outside the class (plugin hooks, the
  set manager's \<^verbatim>\<open>addSplitParticle\<close>) are recorded as effects, in call order.
\<close>

record ICoordinates =
  x :: real
  y :: real

record ICoordinates3d = ICoordinates +
  z :: real

record IDimension =
  width :: real
  height :: real

text \<open>
  Modelled from the spec: the enums \<^verbatim>\<open>OutMode\<close>, \<^verbatim>\<open>DestroyMode\<close>, \<^verbatim>\<open>StartValueType\<close>
  and \<^verbatim>\<open>AnimationStatus\<close> are declared outside the sources. Each datatype has the members
  the class names (for the spec: bounce "full or axis-restricted", destroy mode "split",
  start values min, max and random, status "increasing|decreasing"), and one more
  constructor for every other member.
\<close>

datatype OutMode =
  OutMode_bounce | OutMode_bounceHorizontal | OutMode_bounceVertical | OutMode_other string

datatype DestroyMode = DestroyMode_split | DestroyMode_other string

datatype StartValueType =
  StartValueType_min | StartValueType_max | StartValueType_random | StartValueType_other string

datatype AnimationStatus = increasing | decreasing

text \<open>
  The interfaces of the options, of the container and of the plugins are declared outside
  the sources as well; the records below have the fields the class reads or writes, under
  the names it uses for them (with the name of the record in front where two records share
  a field name). A number, or a range with its two ends (\<^verbatim>\<open>RangeValue\<close>):
\<close>

datatype RangeValue = Number real | MinMax real real

text \<open>An option that is one value or an array of candidates.\<close>

datatype 'a SingleOrMultiple = Single 'a | Multiple "'a list"

record IOutModes =
  outModes_default :: OutMode
  outModes_left :: "OutMode option"
  outModes_right :: "OutMode option"
  outModes_top :: "OutMode option"
  outModes_bottom :: "OutMode option"

record ICollisionsOverlap =
  overlap_enable :: bool
  overlap_retries :: int

record ICollisions =
  collisions_enable :: bool
  collisions_overlap :: ICollisionsOverlap

record ISizeAnimation =
  sizeAnimation_enable :: bool
  sizeAnimation_startValue :: StartValueType
  sizeAnimation_sync :: bool
  sizeAnimation_decay :: RangeValue
  sizeAnimation_count :: RangeValue

record ISize =
  size_range :: RangeValue
  size_animation :: ISizeAnimation

text \<open>
  The option templates handed to \<^verbatim>\<open>addSplitParticle\<close> and the shape data blobs are
  opaque to the class; they are named by a label.
\<close>

type_synonym IParticlesOptionsPartial = string

record ISplit =
  split_count :: int
  split_rate :: RangeValue
  split_particles :: "IParticlesOptionsPartial SingleOrMultiple option"

record IDestroy =
  destroy_mode :: DestroyMode
  destroy_split :: ISplit

record IShapeValues =
  shapeValues_fill :: "bool option"
  shapeValues_close :: "bool option"
  shapeValues_particles :: "IParticlesOptionsPartial option"

record IShape =
  shape_type :: "string SingleOrMultiple"
  shape_options :: "string \<Rightarrow> IShapeValues SingleOrMultiple option"

record IParticlesOptions =
  options_shape :: IShape
  options_reduceDuplicates :: bool
  options_size :: ISize
  options_outModes :: IOutModes
  options_collisions :: ICollisions
  options_destroy :: IDestroy
  options_zIndex :: RangeValue

text \<open>The state of one animated number (\<^verbatim>\<open>IParticleNumericValueAnimation\<close>).\<close>

record IParticleNumericValueAnimation =
  anim_enable :: bool
  anim_current :: real
  anim_max :: real
  anim_min :: real
  anim_loops :: int
  anim_maxLoops :: real
  anim_status :: "AnimationStatus option"
  anim_decay :: "real option"
  anim_velocity :: "real option"

record IBubbleParticleData =
  inRange :: bool
  radius :: "real option"

text \<open>
  The fields of a particle that the embedded methods read or write. The back reference
  to the container is passed to each operation instead of being stored.
\<close>

record Particle =
  id_p :: int
  fill :: bool
  close :: bool
  lastPathTime :: real
  destroyed :: bool
  unbreakable :: bool
  splitCount :: int
  misplaced :: bool
  ignoresResizeRatio :: bool
  shape :: "string option"
  shapeData :: "IShapeValues option"
  options :: IParticlesOptions
  size_p :: IParticleNumericValueAnimation
  opacity :: "IParticleNumericValueAnimation option"
  bubble :: IBubbleParticleData
  position :: ICoordinates3d
  spawning :: bool

text \<open>
  A container plugin: each hook is optional. \<^verbatim>\<open>particlePosition\<close> returns a position or
  \<^verbatim>\<open>undefined\<close>; the two notification hooks return nothing, so only their presence is
  part of the plugin and each call is recorded as an effect.
\<close>

record IContainerPlugin =
  particlePosition :: "(ICoordinates option \<Rightarrow> Particle \<Rightarrow> ICoordinates option) option"
  particleCreated :: bool
  particleDestroyed :: bool

record Retina =
  pixelRatio :: real
  sizeAnimationSpeed :: real
  reduceFactor :: real

record Particles =
  array :: "Particle list"
  needsSort :: bool
  lastZIndex :: real

record Container =
  canvas_size :: IDimension
  retina :: Retina
  zLayers :: real
  plugins :: "(string \<times> IContainerPlugin) list"
  particles :: Particles

datatype Effect =
  Hook_particleCreated string
  | Hook_particleDestroyed string "bool option"
  | Call_addSplitParticle int "IParticlesOptionsPartial option"
  | Call_drawParticlePlugin string
  | Call_drawParticle

text \<open>
  The state the methods work on: the particle, its container and the calls made into
  code outside the class so far.
\<close>

record World =
  self :: Particle
  world_container :: Container
  effects :: "Effect list"

text \<open>The override options of the constructor, as far as the constructor reads them itself.\<close>

record IShapeOverride =
  shapeOverride_type :: "string SingleOrMultiple option"
  shapeOverride_loaded :: IShape

record IOverrideOptions =
  override_shape :: "IShapeOverride option"

text \<open>
  What the constructor takes from code outside the class: the two \<^verbatim>\<open>load\<close> calls on the
  particle options, and the size animation speed \<^verbatim>\<open>retina.initParticle\<close> may have set
  on the particle.
\<close>

record Externals =
  ext_loadOverride :: "IParticlesOptions \<Rightarrow> IOverrideOptions option \<Rightarrow> IParticlesOptions"
  ext_loadPartial :: "IParticlesOptions \<Rightarrow> IParticlesOptionsPartial option \<Rightarrow> IParticlesOptions"
  ext_sizeAnimationSpeed :: "real option"

text \<open>The random draws of one construction, and of one split.\<close>

record Randoms =
  rnd_shape :: real
  rnd_overrideShape :: real
  rnd_shapeData :: real
  rnd_zIndex :: real
  rnd_sizeValue :: real
  rnd_sizeCount :: real
  rnd_sizeDecay :: real
  rnd_sizeStart :: real
  rnd_sizeStatus :: real
  rnd_sizeVelocity :: real
  rnd_position :: "nat \<Rightarrow> ICoordinates"

record SplitRandoms =
  rnd_rate :: real
  rnd_pick :: real

datatype Error = PlacementExhausted

section \<open>Utilities the class imports\<close>

text \<open>
  Modelled from the spec: \<^verbatim>\<open>isInArray\<close> of \<^verbatim>\<open>Utils/Utils\<close> is not among the sources.
  The spec reads the test as "the mode is bounce (full or axis-restricted)", membership
  of the mode in the list of modes checked.
\<close>

definition isInArray :: "'a \<Rightarrow> 'a list \<Rightarrow> bool" where
  "isInArray v xs = (v \<in> set xs)"

text \<open>
  Modelled from the spec: \<^verbatim>\<open>getDistance\<close> of \<^verbatim>\<open>Utils/NumberUtils\<close> is not among the
  sources. The spec compares it with the sum of two radii ("closer than the sum of the two
  radii"): the Euclidean distance of the two points in the plane.
\<close>

definition getDistance :: "'a ICoordinates_scheme \<Rightarrow> 'b ICoordinates_scheme \<Rightarrow> real" where
  "getDistance a b = sqrt ((x a - x b)\<^sup>2 + (y a - y b)\<^sup>2)"

text \<open>
  Modelled from the spec: \<^verbatim>\<open>calcExactPositionOrRandomFromSize\<close> is not among the
  sources. The spec: "sample (x,y) uniformly within the canvas (or use the
  caller-supplied explicit position)". The sample is the input \<open>rnd\<close>.
\<close>

definition calcExactPositionOrRandomFromSize ::
  "ICoordinates \<Rightarrow> ICoordinates option \<Rightarrow> ICoordinates" where
  "calcExactPositionOrRandomFromSize rnd pos = (case pos of Some p \<Rightarrow> p | None \<Rightarrow> rnd)"

text \<open>
  Modelled from the spec: \<^verbatim>\<open>Vector3d.create\<close> is not among the sources; the spec has
  the vector as a "3D numeric vector value type", here the record of its coordinates.
\<close>

definition Vector3d_create :: "real \<Rightarrow> real \<Rightarrow> real \<Rightarrow> ICoordinates3d" where
  "Vector3d_create a b c = \<lparr>x = a, y = b, z = c\<rparr>"

text \<open>
  Modelled from the spec: \<^verbatim>\<open>getRangeMin\<close>, \<^verbatim>\<open>getRangeMax\<close>, \<^verbatim>\<open>randomInRange\<close>,
  \<^verbatim>\<open>getRangeValue\<close>, \<^verbatim>\<open>getValue\<close> and \<^verbatim>\<open>clamp\<close> of \<^verbatim>\<open>Utils/NumberUtils\<close> are
  not among the sources. The spec: a range has a minimum and a maximum, a value is "fixed
  or range-sampled", and a random value is "uniformly sample[d] within [min,max]". \<open>u\<close>
  is the draw of \<^verbatim>\<open>Math.random()\<close>, a number of \<open>[0, 1)\<close>.
\<close>

definition getRangeMin :: "RangeValue \<Rightarrow> real" where
  "getRangeMin r = (case r of Number n \<Rightarrow> n | MinMax lo hi \<Rightarrow> lo)"

definition getRangeMax :: "RangeValue \<Rightarrow> real" where
  "getRangeMax r = (case r of Number n \<Rightarrow> n | MinMax lo hi \<Rightarrow> hi)"

definition randomInRange :: "real \<Rightarrow> real \<Rightarrow> real \<Rightarrow> real" where
  "randomInRange lo hi u = u * (hi - lo) + lo"

definition getRangeValue :: "RangeValue \<Rightarrow> real \<Rightarrow> real" where
  "getRangeValue r u = (case r of Number n \<Rightarrow> n | MinMax lo hi \<Rightarrow> randomInRange lo hi u)"

definition getValue :: "RangeValue \<Rightarrow> real \<Rightarrow> real" where
  "getValue r u = getRangeValue r u"

definition clamp :: "real \<Rightarrow> real \<Rightarrow> real \<Rightarrow> real" where
  "clamp num lo hi = min (max num lo) hi"

text \<open>
  Reading an array at a JavaScript number: \<^verbatim>\<open>undefined\<close> outside the array. The
  remainder \<^verbatim>\<open>%\<close> takes the sign of the dividend and is \<^verbatim>\<open>NaN\<close> for a zero divisor.
\<close>

definition elementAt :: "'a list \<Rightarrow> int \<Rightarrow> 'a option" where
  "elementAt xs i = (if 0 \<le> i \<and> i < int (length xs) then Some (xs ! nat i) else None)"

definition js_rem :: "int \<Rightarrow> int \<Rightarrow> int option" where
  "js_rem a n =
     (if n = 0 then None else Some (if a < 0 then - ((- a) mod \<bar>n\<bar>) else a mod \<bar>n\<bar>))"

text \<open>
  Modelled from the spec: \<^verbatim>\<open>itemFromArray\<close> of \<^verbatim>\<open>Utils/Utils\<close> is not among the
  sources. The spec: the item "is selected by index-into-array-of-candidates keyed on
  particle id (modulo array length), with an optional "reduce duplicates" mode that
  instead performs a random pick"; without an index the pick is random
  ("array-indexed-random-without-id-bias pick"). \<open>index\<close> is \<open>None\<close> when the call
  passes none, \<open>reduceDuplicates\<close> is the third argument of the call, and \<open>u\<close> is the
  draw of the random pick.
\<close>

definition itemFromArray :: "'a list \<Rightarrow> int option \<Rightarrow> bool \<Rightarrow> real \<Rightarrow> 'a option" where
  "itemFromArray xs index reduceDuplicates u =
     (case index of
        Some i \<Rightarrow>
          if \<not> reduceDuplicates
          then (case js_rem i (int (length xs)) of Some k \<Rightarrow> elementAt xs k | None \<Rightarrow> None)
          else elementAt xs \<lfloor>u * real (length xs)\<rfloor>
      | None \<Rightarrow> elementAt xs \<lfloor>u * real (length xs)\<rfloor>)"

section \<open>Placement\<close>

text \<open>
  \<^verbatim>\<open>fixOutMode\<close>: the result is the value handed to the callback \<^verbatim>\<open>setCb\<close>, or
  \<open>None\<close> when the callback is not called.
\<close>

definition fixOutMode :: "OutMode \<Rightarrow> OutMode list \<Rightarrow> real \<Rightarrow> real \<Rightarrow> real \<Rightarrow> real option" where
  "fixOutMode outMode checkModes coord maxCoord rad =
     (if \<not> (isInArray outMode checkModes \<or> isInArray outMode checkModes) then None
      else if coord > maxCoord - rad * 2 then Some (- rad)
      else if coord < rad * 2 then Some rad
      else None)"

definition getRadius :: "Particle \<Rightarrow> real" where
  "getRadius p = (case radius (bubble p) of Some r \<Rightarrow> r | None \<Rightarrow> anim_current (size_p p))"

text \<open>
  \<^verbatim>\<open>fixHorizontal\<close> and \<^verbatim>\<open>fixVertical\<close> of \<^verbatim>\<open>calcPosition\<close>: each reads the coordinate
  of \<open>pos\<close> as it is at the call and adds the callback's value to it.
\<close>

definition fixHorizontal :: "Container \<Rightarrow> real \<Rightarrow> OutMode \<Rightarrow> ICoordinates3d \<Rightarrow> ICoordinates3d" where
  "fixHorizontal container rad outMode pos =
     (case fixOutMode outMode [OutMode_bounce, OutMode_bounceHorizontal] (x pos)
             (width (canvas_size container)) rad of
        None \<Rightarrow> pos
      | Some v \<Rightarrow> pos\<lparr>x := x pos + v\<rparr>)"

definition fixVertical :: "Container \<Rightarrow> real \<Rightarrow> OutMode \<Rightarrow> ICoordinates3d \<Rightarrow> ICoordinates3d" where
  "fixVertical container rad outMode pos =
     (case fixOutMode outMode [OutMode_bounce, OutMode_bounceVertical] (y pos)
             (height (canvas_size container)) rad of
        None \<Rightarrow> pos
      | Some v \<Rightarrow> pos\<lparr>y := y pos + v\<rparr>)"

definition orDefault :: "'a option \<Rightarrow> 'a \<Rightarrow> 'a" where
  "orDefault v d = (case v of Some a \<Rightarrow> a | None \<Rightarrow> d)"

text \<open>The four calls that follow the definition of the two fixers, in the order of the source.\<close>

definition fixPosition :: "Container \<Rightarrow> Particle \<Rightarrow> ICoordinates3d \<Rightarrow> ICoordinates3d" where
  "fixPosition container p pos =
     (let rad = getRadius p;
          outModes = options_outModes (options p);
          pos1 = fixHorizontal container rad (orDefault (outModes_left outModes) (outModes_default outModes)) pos;
          pos2 = fixHorizontal container rad (orDefault (outModes_right outModes) (outModes_default outModes)) pos1;
          pos3 = fixVertical container rad (orDefault (outModes_top outModes) (outModes_default outModes)) pos2
      in fixVertical container rad (orDefault (outModes_bottom outModes) (outModes_default outModes)) pos3)"

text \<open>The scan of \<^verbatim>\<open>checkOverlap\<close>: true at the first particle that is too close.\<close>

fun overlapsAny :: "Particle \<Rightarrow> ICoordinates3d \<Rightarrow> Particle list \<Rightarrow> bool" where
  "overlapsAny p pos [] = False"
| "overlapsAny p pos (q # qs) =
     (if getDistance pos (position q) < getRadius p + getRadius q then True
      else overlapsAny p pos qs)"

definition checkOverlap :: "Container \<Rightarrow> Particle \<Rightarrow> ICoordinates3d \<Rightarrow> nat \<Rightarrow> Error + bool" where
  "checkOverlap container p pos tryCount =
     (let collisionsOptions = options_collisions (options p) in
      if \<not> collisions_enable collisionsOptions then Inr False
      else let overlapOptions = collisions_overlap collisionsOptions in
        if overlap_enable overlapOptions then Inr False
        else let retries = overlap_retries overlapOptions in
          if retries \<ge> 0 \<and> int tryCount > retries then Inl PlacementExhausted
          else Inr (overlapsAny p pos (array (particles container))))"

text \<open>
  The loop over the plugins at the head of \<^verbatim>\<open>calcPosition\<close>: \<open>pluginAnswer\<close> is
  the value of \<^verbatim>\<open>pluginPos\<close> for one plugin, and the first position wins.
\<close>

definition pluginAnswer :: "IContainerPlugin \<Rightarrow> ICoordinates option \<Rightarrow> Particle \<Rightarrow> ICoordinates option" where
  "pluginAnswer plugin pos p =
     (case particlePosition plugin of Some hook \<Rightarrow> hook pos p | None \<Rightarrow> None)"

fun pluginPosition ::
  "(string \<times> IContainerPlugin) list \<Rightarrow> ICoordinates option \<Rightarrow> Particle \<Rightarrow> ICoordinates option" where
  "pluginPosition [] pos p = None"
| "pluginPosition ((k, plugin) # rest) pos p =
     (case pluginAnswer plugin pos p of
        Some pluginPos \<Rightarrow> Some pluginPos
      | None \<Rightarrow> pluginPosition rest pos p)"

text \<open>
  The candidate of one call of \<^verbatim>\<open>calcPosition\<close>: the exact or random point at depth
  \<open>zIndex\<close>, after the four out mode fixes. \<open>sample\<close> is the random point the call draws.
\<close>

definition placementCandidate ::
  "ICoordinates \<Rightarrow> Container \<Rightarrow> Particle \<Rightarrow> ICoordinates option \<Rightarrow> real \<Rightarrow> ICoordinates3d" where
  "placementCandidate sample container p pos zIndex =
     (let exactPosition = calcExactPositionOrRandomFromSize sample pos
      in fixPosition container p (Vector3d_create (x exactPosition) (y exactPosition) zIndex))"

text \<open>
  \<^verbatim>\<open>calcPosition\<close>. \<open>rnd k\<close> is the random point drawn by the call whose
  \<^verbatim>\<open>tryCount\<close> is \<open>k\<close>. The recursion has no bound of its own, so the result is an
  option: \<open>None\<close> when the calls never end, \<open>Some (Inl e)\<close> when \<^verbatim>\<open>checkOverlap\<close>
  throws, \<open>Some (Inr pos)\<close> when a position is returned.
\<close>

partial_function (option) calcPosition ::
  "(nat \<Rightarrow> ICoordinates) \<Rightarrow> Container \<Rightarrow> Particle \<Rightarrow> ICoordinates option \<Rightarrow> real \<Rightarrow> nat
     \<Rightarrow> (Error + ICoordinates3d) option" where
  "calcPosition rnd container p pos zIndex tryCount =
     (case pluginPosition (plugins container) pos p of
        Some pluginPos \<Rightarrow> Some (Inr (Vector3d_create (x pluginPos) (y pluginPos) zIndex))
      | None \<Rightarrow>
          (case checkOverlap container p (placementCandidate (rnd tryCount) container p pos zIndex)
                  tryCount of
             Inl e \<Rightarrow> Some (Inl e)
           | Inr overlaps \<Rightarrow>
               if overlaps then calcPosition rnd container p None zIndex (tryCount + 1)
               else Some (Inr (placementCandidate (rnd tryCount) container p pos zIndex))))"

text \<open>
  The candidate of the call with \<^verbatim>\<open>tryCount\<close> \<open>k\<close>, when placement starts with the
  position \<open>pos\<close> and \<^verbatim>\<open>tryCount\<close> 0: the explicit position is handed to the first call only.
\<close>

definition attemptPosition ::
  "(nat \<Rightarrow> ICoordinates) \<Rightarrow> Container \<Rightarrow> Particle \<Rightarrow> ICoordinates option \<Rightarrow> real \<Rightarrow> nat
     \<Rightarrow> ICoordinates3d" where
  "attemptPosition rnd container p pos zIndex k =
     placementCandidate (rnd k) container p (if k = 0 then pos else None) zIndex"

definition attemptOverlaps ::
  "(nat \<Rightarrow> ICoordinates) \<Rightarrow> Container \<Rightarrow> Particle \<Rightarrow> ICoordinates option \<Rightarrow> real \<Rightarrow> nat \<Rightarrow> bool" where
  "attemptOverlaps rnd container p pos zIndex k =
     overlapsAny p (attemptPosition rnd container p pos zIndex k) (array (particles container))"

section \<open>Destruction and split\<close>

text \<open>The loop of \<^verbatim>\<open>split\<close>: one call of \<^verbatim>\<open>addSplitParticle\<close> for each \<open>i < rate\<close>.\<close>

function splitLoop :: "nat \<Rightarrow> real \<Rightarrow> IParticlesOptionsPartial option \<Rightarrow> World \<Rightarrow> World" where
  "splitLoop i rate particlesSplitOptions w =
     (if real i < rate
      then splitLoop (i + 1) rate particlesSplitOptions
             (w\<lparr>effects := effects w @ [Call_addSplitParticle (id_p (self w)) particlesSplitOptions]\<rparr>)
      else w)"
  by pat_completeness auto
termination
  by (relation "measure (\<lambda>(i, rate, t, w). nat \<lceil>rate - real i\<rceil>)") (auto, linarith)

declare splitLoop.simps [simp del]

text \<open>
  The template \<^verbatim>\<open>split\<close> hands to \<^verbatim>\<open>addSplitParticle\<close>: a random item when the option
  is an array (the call passes \<^verbatim>\<open>itemFromArray\<close> the array only, and without an index its
  third argument is not read), the option itself otherwise.
\<close>

definition particlesSplitOptions :: "SplitRandoms \<Rightarrow> ISplit \<Rightarrow> IParticlesOptionsPartial option" where
  "particlesSplitOptions r splitOptions =
     (case split_particles splitOptions of
        Some (Multiple ts) \<Rightarrow> itemFromArray ts None True (rnd_pick r)
      | Some (Single t) \<Rightarrow> Some t
      | None \<Rightarrow> None)"

text \<open>
  \<^verbatim>\<open>split\<close>. The test \<^verbatim>\<open>count >= 0 && this.splitCount++ > count\<close> compares the count
  before the increment, and increments whenever its first operand holds.
\<close>

definition split_p :: "SplitRandoms \<Rightarrow> World \<Rightarrow> World" where
  "split_p r w =
     (let splitOptions = destroy_split (options_destroy (options (self w)));
          before = splitCount (self w);
          w1 = (if split_count splitOptions \<ge> 0
                then w\<lparr>self := (self w)\<lparr>splitCount := before + 1\<rparr>\<rparr> else w)
      in if split_count splitOptions \<ge> 0 \<and> before > split_count splitOptions then w1
         else
           let rate = getValue (split_rate splitOptions) (rnd_rate r)
           in splitLoop 0 rate (particlesSplitOptions r splitOptions) w1)"

text \<open>The calls of the \<^verbatim>\<open>particleDestroyed\<close> hooks, in the order of the plugins.\<close>

fun destroyedHooks :: "(string \<times> IContainerPlugin) list \<Rightarrow> bool option \<Rightarrow> Effect list" where
  "destroyedHooks [] override = []"
| "destroyedHooks ((k, plugin) # rest) override =
     (if particleDestroyed plugin
      then Hook_particleDestroyed k override # destroyedHooks rest override
      else destroyedHooks rest override)"

text \<open>\<^verbatim>\<open>destroy(override?)\<close>: the argument is \<open>None\<close> when the call passes none.\<close>

definition destroy :: "bool option \<Rightarrow> SplitRandoms \<Rightarrow> World \<Rightarrow> World" where
  "destroy override r w =
     (if unbreakable (self w) \<or> destroyed (self w) then w
      else
        let w1 = w\<lparr>self := (self w)\<lparr>destroyed := True, bubble := (bubble (self w))\<lparr>inRange := False\<rparr>\<rparr>\<rparr>;
            w2 = w1\<lparr>effects := effects w1 @ destroyedHooks (plugins (world_container w1)) override\<rparr>
        in if override = Some True then w2
           else if destroy_mode (options_destroy (options (self w2))) = DestroyMode_split
           then split_p r w2
           else w2)"

text \<open>\<^verbatim>\<open>reset\<close> and \<^verbatim>\<open>draw\<close>, the other public methods that write state or call out.\<close>

definition reset :: "World \<Rightarrow> World" where
  "reset w =
     (let p = self w;
          p1 = (case opacity p of
                  Some a \<Rightarrow> p\<lparr>opacity := Some (a\<lparr>anim_loops := 0\<rparr>)\<rparr>
                | None \<Rightarrow> p)
      in w\<lparr>self := p1\<lparr>size_p := (size_p p1)\<lparr>anim_loops := 0\<rparr>\<rparr>\<rparr>)"

definition draw :: "World \<Rightarrow> World" where
  "draw w =
     w\<lparr>effects := effects w @ map (\<lambda>(k, plugin). Call_drawParticlePlugin k) (plugins (world_container w))
                   @ [Call_drawParticle]\<rparr>"

text \<open>A call of a public method that can change the state, and a sequence of such calls.\<close>

datatype MethodCall = Method_destroy "bool option" SplitRandoms | Method_reset | Method_draw

fun exec :: "MethodCall \<Rightarrow> World \<Rightarrow> World" where
  "exec (Method_destroy override r) w = destroy override r w"
| "exec Method_reset w = reset w"
| "exec Method_draw w = draw w"

fun execAll :: "MethodCall list \<Rightarrow> World \<Rightarrow> World" where
  "execAll [] w = w"
| "execAll (m # ms) w = execAll ms (exec m w)"

section \<open>Construction\<close>

text \<open>
  The constructor, as far as it fixes the fields above. The particle options it starts
  from (\<^verbatim>\<open>loadParticlesOptions\<close>) are an input. Fields the source leaves
  \<^verbatim>\<open>undefined\<close> until a later statement assigns them hold a placeholder until then:
  no statement reads them before. The steps that compute the path delay, the
  interactivity options, the move centre, the direction and the velocity, and the
  lookup of the shape drawer with the \<^verbatim>\<open>init\<close> hooks of updaters, movers and drawer,
  write none of the fields above and are left out.
\<close>

definition emptyNumericValueAnimation :: IParticleNumericValueAnimation where
  "emptyNumericValueAnimation =
     \<lparr>anim_enable = False, anim_current = 0, anim_max = 0, anim_min = 0, anim_loops = 0,
      anim_maxLoops = 0, anim_status = None, anim_decay = None, anim_velocity = None\<rparr>"

text \<open>The assignments at the head of the constructor.\<close>

definition initFields :: "int \<Rightarrow> IParticlesOptions \<Rightarrow> Particle" where
  "initFields i particlesOptions =
     \<lparr>id_p = i, fill = True, close = True, lastPathTime = 0, destroyed = False,
      unbreakable = False, splitCount = 0, misplaced = False, ignoresResizeRatio = True,
      shape = None, shapeData = None, options = particlesOptions,
      size_p = emptyNumericValueAnimation, opacity = None,
      bubble = \<lparr>inRange = False, radius = None\<rparr>,
      position = Vector3d_create 0 0 0, spawning = False\<rparr>"

text \<open>
  \<^verbatim>\<open>shapeType instanceof Array ? itemFromArray(shapeType, this.id, reduceDuplicates) : shapeType\<close>
\<close>

definition pickShape :: "string SingleOrMultiple \<Rightarrow> int \<Rightarrow> bool \<Rightarrow> real \<Rightarrow> string option" where
  "pickShape shapeType i reduceDuplicates u =
     (case shapeType of
        Multiple xs \<Rightarrow> itemFromArray xs (Some i) reduceDuplicates u
      | Single s \<Rightarrow> Some s)"

definition emptyShapeValues :: IShapeValues where
  "emptyShapeValues =
     \<lparr>shapeValues_fill = None, shapeValues_close = None, shapeValues_particles = None\<rparr>"

text \<open>
  \<^verbatim>\<open>loadShapeData\<close>. The key of the lookup is the shape, \<^verbatim>\<open>"undefined"\<close> when the
  particle has none.
  Modelled from the spec: \<^verbatim>\<open>deepExtend\<close> of \<^verbatim>\<open>Utils/Utils\<close> is not among the sources.
  The spec has the shape data "deep-cloned": \<^verbatim>\<open>deepExtend({}, source)\<close> is a copy of
  the source, which is the source itself for a value, and the empty object when the
  source is \<^verbatim>\<open>undefined\<close>.
\<close>

definition loadShapeData :: "Particle \<Rightarrow> IShape \<Rightarrow> bool \<Rightarrow> real \<Rightarrow> IShapeValues option" where
  "loadShapeData p shapeOptions reduceDuplicates u =
     (case shape_options shapeOptions (case shape p of Some s \<Rightarrow> s | None \<Rightarrow> ''undefined'') of
        None \<Rightarrow> None
      | Some (Single d) \<Rightarrow> Some d
      | Some (Multiple ds) \<Rightarrow>
          Some (case itemFromArray ds (Some (id_p p)) reduceDuplicates u of
                  Some d \<Rightarrow> d
                | None \<Rightarrow> emptyShapeValues))"

text \<open>The truth value JavaScript gives a shape type and a shape.\<close>

definition truthyShapeType :: "string SingleOrMultiple option \<Rightarrow> bool" where
  "truthyShapeType t =
     (case t of None \<Rightarrow> False | Some (Single s) \<Rightarrow> s \<noteq> [] | Some (Multiple xs) \<Rightarrow> True)"

definition truthyShape :: "string option \<Rightarrow> bool" where
  "truthyShape t = (case t of None \<Rightarrow> False | Some s \<Rightarrow> s \<noteq> [])"

text \<open>The choice of the shape and of the shape data.\<close>

definition selectShape ::
  "Randoms \<Rightarrow> IParticlesOptions \<Rightarrow> IOverrideOptions option \<Rightarrow> Particle \<Rightarrow> Particle" where
  "selectShape r particlesOptions overrideOptions p =
     (let shapeType = shape_type (options_shape particlesOptions);
          reduceDuplicates = options_reduceDuplicates particlesOptions;
          p1 = p\<lparr>shape := pickShape shapeType (id_p p) reduceDuplicates (rnd_shape r)\<rparr>
      in case (case overrideOptions of Some ov \<Rightarrow> override_shape ov | None \<Rightarrow> None) of
           Some overrideShape \<Rightarrow>
             let p2 = (if truthyShapeType (shapeOverride_type overrideShape)
                       then (case shapeOverride_type overrideShape of
                               Some overrideShapeType \<Rightarrow>
                                 p1\<lparr>shape := pickShape overrideShapeType (id_p p1) reduceDuplicates
                                                 (rnd_overrideShape r)\<rparr>
                             | None \<Rightarrow> p1)
                       else p1)
             in if truthyShape (shape p2)
                then p2\<lparr>shapeData := loadShapeData p2 (shapeOverride_loaded overrideShape)
                                          reduceDuplicates (rnd_shapeData r)\<rparr>
                else p2
         | None \<Rightarrow>
             p1\<lparr>shapeData := loadShapeData p1 (options_shape particlesOptions) reduceDuplicates
                                 (rnd_shapeData r)\<rparr>)"

text \<open>The two \<^verbatim>\<open>load\<close> calls, and \<^verbatim>\<open>fill\<close>, \<^verbatim>\<open>close\<close> and \<^verbatim>\<open>options\<close>.\<close>

definition resolveOptions ::
  "Externals \<Rightarrow> IParticlesOptions \<Rightarrow> IOverrideOptions option \<Rightarrow> Particle \<Rightarrow> Particle" where
  "resolveOptions ext particlesOptions overrideOptions p =
     (let loaded = ext_loadPartial ext (ext_loadOverride ext particlesOptions overrideOptions)
                     (case shapeData p of Some d \<Rightarrow> shapeValues_particles d | None \<Rightarrow> None)
      in p\<lparr>fill := orDefault (case shapeData p of Some d \<Rightarrow> shapeValues_fill d | None \<Rightarrow> None) (fill p),
            close := orDefault (case shapeData p of Some d \<Rightarrow> shapeValues_close d | None \<Rightarrow> None) (close p),
            options := loaded\<rparr>)"

text \<open>The size block of the constructor.\<close>

definition initSize :: "Externals \<Rightarrow> Randoms \<Rightarrow> Container \<Rightarrow> Particle \<Rightarrow> Particle" where
  "initSize ext r container p =
     (let pxRatio = pixelRatio (retina container);
          sizeOptions = options_size (options p);
          sizeRange = size_range sizeOptions;
          sizeAnimation = size_animation sizeOptions;
          size0 = \<lparr>anim_enable = sizeAnimation_enable (size_animation sizeOptions),
                   anim_current = getRangeValue (size_range sizeOptions) (rnd_sizeValue r)
                                    * pixelRatio (retina container),
                   anim_max = getRangeMax sizeRange * pxRatio,
                   anim_min = getRangeMin sizeRange * pxRatio,
                   anim_loops = 0,
                   anim_maxLoops = getRangeValue (sizeAnimation_count (size_animation sizeOptions))
                                     (rnd_sizeCount r),
                   anim_status = None, anim_decay = None, anim_velocity = None\<rparr>
      in if sizeAnimation_enable sizeAnimation
         then
           let size1 = size0\<lparr>anim_status := Some increasing,
                             anim_decay := Some (1 - getRangeValue (sizeAnimation_decay sizeAnimation)
                                                       (rnd_sizeDecay r))\<rparr>;
               size2 =
                 (case sizeAnimation_startValue sizeAnimation of
                    StartValueType_min \<Rightarrow>
                      size1\<lparr>anim_current := anim_min size1, anim_status := Some increasing\<rparr>
                  | StartValueType_random \<Rightarrow>
                      size1\<lparr>anim_current := randomInRange (anim_min size1) (anim_max size1)
                                                (rnd_sizeStart r) * pxRatio,
                             anim_status := Some (if rnd_sizeStatus r \<ge> 0.5 then increasing
                                                  else decreasing)\<rparr>
                  | StartValueType_max \<Rightarrow>
                      size1\<lparr>anim_current := anim_max size1, anim_status := Some decreasing\<rparr>
                  | StartValueType_other s \<Rightarrow>
                      size1\<lparr>anim_current := anim_max size1, anim_status := Some decreasing\<rparr>);
               velocity = orDefault (ext_sizeAnimationSpeed ext) (sizeAnimationSpeed (retina container))
                            / 100 * reduceFactor (retina container)
           in p\<lparr>size_p := size2\<lparr>anim_velocity :=
                   Some (if \<not> sizeAnimation_sync sizeAnimation then velocity * rnd_sizeVelocity r
                         else velocity)\<rparr>\<rparr>
         else p\<lparr>size_p := size0\<rparr>)"

text \<open>The bookkeeping of the z order on the particle set of the container.\<close>

definition trackZ :: "Particle \<Rightarrow> Container \<Rightarrow> Container" where
  "trackZ p container =
     container\<lparr>particles := (particles container)
        \<lparr>needsSort := needsSort (particles container)
                       \<or> lastZIndex (particles container) < z (position p),
         lastZIndex := z (position p)\<rparr>\<rparr>"

text \<open>The calls of the \<^verbatim>\<open>particleCreated\<close> hooks, in the order of the plugins.\<close>

fun createdHooks :: "(string \<times> IContainerPlugin) list \<Rightarrow> Effect list" where
  "createdHooks [] = []"
| "createdHooks ((k, plugin) # rest) =
     (if particleCreated plugin then Hook_particleCreated k # createdHooks rest
      else createdHooks rest)"

text \<open>
  The constructor: \<open>None\<close> when placement never ends, \<open>Some (Inl e)\<close> when it throws,
  \<open>Some (Inr w)\<close> with the new particle, the container as the constructor leaves it and
  the hooks called.
\<close>

definition Particle_new ::
  "Externals \<Rightarrow> Randoms \<Rightarrow> Container \<Rightarrow> int \<Rightarrow> ICoordinates option \<Rightarrow> IOverrideOptions option
     \<Rightarrow> IParticlesOptions \<Rightarrow> (Error + World) option" where
  "Particle_new ext r container i pos overrideOptions particlesOptions =
     (let p1 = selectShape r particlesOptions overrideOptions (initFields i particlesOptions);
          p2 = resolveOptions ext particlesOptions overrideOptions p1;
          zIndexValue = getRangeValue (options_zIndex (options p2)) (rnd_zIndex r);
          p3 = initSize ext r container p2;
          p4 = p3\<lparr>bubble := \<lparr>inRange = False, radius = None\<rparr>\<rparr>
      in case calcPosition (rnd_position r) container p4 pos
                (clamp zIndexValue 0 (zLayers container)) 0 of
           None \<Rightarrow> None
         | Some (Inl e) \<Rightarrow> Some (Inl e)
         | Some (Inr newPosition) \<Rightarrow>
             let p5 = p4\<lparr>position := newPosition\<rparr>;
                 container1 = trackZ p5 container;
                 p6 = p5\<lparr>spawning := False\<rparr>
             in Some (Inr \<lparr>self = p6, world_container = container1,
                           effects = createdHooks (plugins container)\<rparr>))"

section \<open>Sample values\<close>

text \<open>Concrete options, particles and containers, used to run the definitions.\<close>

definition sampleOptions :: IParticlesOptions where
  "sampleOptions =
     \<lparr>options_shape = \<lparr>shape_type = Multiple [''circle'', ''square''], shape_options = (\<lambda>k. None)\<rparr>,
      options_reduceDuplicates = False,
      options_size = \<lparr>size_range = MinMax 2 10,
                      size_animation = \<lparr>sizeAnimation_enable = True,
                                         sizeAnimation_startValue = StartValueType_min,
                                         sizeAnimation_sync = True,
                                         sizeAnimation_decay = Number 0,
                                         sizeAnimation_count = Number 0\<rparr>\<rparr>,
      options_outModes = \<lparr>outModes_default = OutMode_bounce, outModes_left = None,
                          outModes_right = None, outModes_top = None, outModes_bottom = None\<rparr>,
      options_collisions = \<lparr>collisions_enable = True,
                            collisions_overlap = \<lparr>overlap_enable = False, overlap_retries = 1\<rparr>\<rparr>,
      options_destroy = \<lparr>destroy_mode = DestroyMode_split,
                         destroy_split = \<lparr>split_count = 0, split_rate = Number 3,
                                           split_particles = None\<rparr>\<rparr>,
      options_zIndex = Number 0\<rparr>"

text \<open>The sample options with another out mode, retry limit or split limit.\<close>

definition withOutMode :: "OutMode \<Rightarrow> IParticlesOptions \<Rightarrow> IParticlesOptions" where
  "withOutMode m opts = opts\<lparr>options_outModes := (options_outModes opts)\<lparr>outModes_default := m\<rparr>\<rparr>"

definition withRetries :: "int \<Rightarrow> IParticlesOptions \<Rightarrow> IParticlesOptions" where
  "withRetries n opts =
     opts\<lparr>options_collisions := (options_collisions opts)
        \<lparr>collisions_overlap := (collisions_overlap (options_collisions opts))\<lparr>overlap_retries := n\<rparr>\<rparr>\<rparr>"

definition withCollisions :: "bool \<Rightarrow> IParticlesOptions \<Rightarrow> IParticlesOptions" where
  "withCollisions b opts =
     opts\<lparr>options_collisions := (options_collisions opts)\<lparr>collisions_enable := b\<rparr>\<rparr>"

definition withSplitCount :: "int \<Rightarrow> IParticlesOptions \<Rightarrow> IParticlesOptions" where
  "withSplitCount n opts =
     opts\<lparr>options_destroy := (options_destroy opts)
        \<lparr>destroy_split := (destroy_split (options_destroy opts))\<lparr>split_count := n\<rparr>\<rparr>\<rparr>"

definition withStartValue :: "StartValueType \<Rightarrow> IParticlesOptions \<Rightarrow> IParticlesOptions" where
  "withStartValue v opts =
     opts\<lparr>options_size := (options_size opts)
        \<lparr>size_animation := (size_animation (options_size opts))\<lparr>sizeAnimation_startValue := v\<rparr>\<rparr>\<rparr>"

definition withZIndex :: "real \<Rightarrow> IParticlesOptions \<Rightarrow> IParticlesOptions" where
  "withZIndex v opts = opts\<lparr>options_zIndex := Number v\<rparr>"

text \<open>A particle of radius \<open>r\<close> at \<open>(a, b)\<close>, depth 0.\<close>

definition sampleParticle :: "real \<Rightarrow> real \<Rightarrow> real \<Rightarrow> IParticlesOptions \<Rightarrow> Particle" where
  "sampleParticle a b r opts =
     (initFields 0 opts)\<lparr>size_p := emptyNumericValueAnimation\<lparr>anim_current := r\<rparr>,
                         position := Vector3d_create a b 0\<rparr>"

text \<open>A container with a canvas of 800 by 600, pixel ratio 1 and 100 z layers.\<close>

definition sampleContainer :: "(string \<times> IContainerPlugin) list \<Rightarrow> Particle list \<Rightarrow> Container" where
  "sampleContainer ps qs =
     \<lparr>canvas_size = \<lparr>width = 800, height = 600\<rparr>,
      retina = \<lparr>pixelRatio = 1, sizeAnimationSpeed = 50, reduceFactor = 1\<rparr>,
      zLayers = 100,
      plugins = ps,
      particles = \<lparr>array = qs, needsSort = False, lastZIndex = 0\<rparr>\<rparr>"

text \<open>A world with no call made so far.\<close>

definition sampleWorld :: "Particle \<Rightarrow> Container \<Rightarrow> World" where
  "sampleWorld p c = \<lparr>self = p, world_container = c, effects = []\<rparr>"

text \<open>The container with another pixel ratio.\<close>

definition withPixelRatio :: "real \<Rightarrow> Container \<Rightarrow> Container" where
  "withPixelRatio v c = c\<lparr>retina := (retina c)\<lparr>pixelRatio := v\<rparr>\<rparr>"

text \<open>The container a construction leaves, the container it started from when it returns none.\<close>

definition containerAfter :: "(Error + World) option \<Rightarrow> Container \<Rightarrow> Container" where
  "containerAfter res c = (case res of Some (Inr w) \<Rightarrow> world_container w | _ \<Rightarrow> c)"

definition noHooks :: IContainerPlugin where
  "noHooks = \<lparr>particlePosition = None, particleCreated = False, particleDestroyed = False\<rparr>"

text \<open>A plugin with all three hooks, which places every particle at \<open>(5, 5)\<close>.\<close>

definition positionPlugin :: IContainerPlugin where
  "positionPlugin =
     \<lparr>particlePosition = Some (\<lambda>pos p. Some \<lparr>x = 5, y = 5\<rparr>),
      particleCreated = True, particleDestroyed = True\<rparr>"

definition sampleExternals :: Externals where
  "sampleExternals =
     \<lparr>ext_loadOverride = (\<lambda>opts ov. opts), ext_loadPartial = (\<lambda>opts pt. opts),
      ext_sizeAnimationSpeed = None\<rparr>"

text \<open>Random draws that are all 0, but for the random points, which are given.\<close>

definition sampleRandoms :: "(nat \<Rightarrow> ICoordinates) \<Rightarrow> Randoms" where
  "sampleRandoms f =
     \<lparr>rnd_shape = 0, rnd_overrideShape = 0, rnd_shapeData = 0, rnd_zIndex = 0,
      rnd_sizeValue = 0, rnd_sizeCount = 0, rnd_sizeDecay = 0, rnd_sizeStart = 0,
      rnd_sizeStatus = 0, rnd_sizeVelocity = 0, rnd_position = f\<rparr>"

text \<open>Random points: the same point at every call, or one point at the first call and another after.\<close>

definition samplesAt :: "real \<Rightarrow> real \<Rightarrow> nat \<Rightarrow> ICoordinates" where
  "samplesAt a b k = \<lparr>x = a, y = b\<rparr>"

definition samplesThen :: "real \<Rightarrow> real \<Rightarrow> real \<Rightarrow> real \<Rightarrow> nat \<Rightarrow> ICoordinates" where
  "samplesThen a b a1 b1 k = (if k = 0 then \<lparr>x = a, y = b\<rparr> else \<lparr>x = a1, y = b1\<rparr>)"

definition sampleSplitRandoms :: SplitRandoms where
  "sampleSplitRandoms = \<lparr>rnd_rate = 0, rnd_pick = 0\<rparr>"

text \<open>
  The container after the construction, in the container \<open>c\<close>, of the particle \<open>i\<close> with
  the sample options at the z index \<open>v\<close>.
\<close>

definition sampleConstruct :: "Container \<Rightarrow> int \<Rightarrow> real \<Rightarrow> Container" where
  "sampleConstruct c i v =
     containerAfter
       (Particle_new sampleExternals (sampleRandoms (samplesAt 400 300)) c i None None
          (withZIndex v sampleOptions)) c"

text \<open>
  Override options that name the shape type \<open>t\<close>, with the shape object loaded from them,
  and the shape of the particle a construction returns.
\<close>

definition sampleOverride :: "string SingleOrMultiple \<Rightarrow> IOverrideOptions" where
  "sampleOverride t =
     \<lparr>override_shape = Some \<lparr>shapeOverride_type = Some t,
                              shapeOverride_loaded = \<lparr>shape_type = t, shape_options = (\<lambda>k. None)\<rparr>\<rparr>\<rparr>"

definition shapeAfter :: "(Error + World) option \<Rightarrow> string option" where
  "shapeAfter res = (case res of Some (Inr w) \<Rightarrow> shape (self w) | _ \<Rightarrow> None)"

section \<open>Placement: the position of a plugin\<close>

lemma pluginPosition_first:
  "\<lbrakk>\<forall>kp \<in> set pre. pluginAnswer (snd kp) pos p = None; pluginAnswer pl pos p = Some q\<rbrakk>
   \<Longrightarrow> pluginPosition (pre @ (k, pl) # post) pos p = Some q"
  by (induction pre) (auto split: option.splits)

lemma calcPosition_plugin:
  "pluginPosition (plugins c) pos p = Some q \<Longrightarrow>
   calcPosition rnd c p pos zi t = Some (Inr \<lparr>x = x q, y = y q, z = zi\<rparr>)"
  by (subst calcPosition.simps) (simp add: Vector3d_create_def)

text \<open>
  Claim C9. When a plugin of the container answers the \<^verbatim>\<open>particlePosition\<close> hook with a
  position, and no plugin before it in the order of the container does, \<^verbatim>\<open>calcPosition\<close>
  returns that position at the depth it was given, whatever the out modes, the collision
  options, the particles of the container and the retry count are: the out mode fix and the
  overlap scan are not applied to it.
\<close>

theorem calcPosition_plugin_position_wins:
  assumes "plugins c = pre @ (k, plugin) # post"
    and "\<forall>kp \<in> set pre. pluginAnswer (snd kp) pos p = None"
    and "pluginAnswer plugin pos p = Some q"
  shows "calcPosition rnd c p pos zi t = Some (Inr \<lparr>x = x q, y = y q, z = zi\<rparr>)"
  using assms by (simp add: calcPosition_plugin pluginPosition_first)

text \<open>
  An instance: the second plugin answers \<open>(5, 5)\<close>, a particle of radius 10 sits at
  \<open>(5, 5)\<close>, collisions are on, overlap is off and every edge bounces; the position
  returned is \<open>(5, 5)\<close> all the same.
\<close>

theorem calcPosition_plugin_position_wins_witness:
  "pluginAnswer noHooks None (sampleParticle 0 0 10 sampleOptions) = None
   \<and> pluginAnswer positionPlugin None (sampleParticle 0 0 10 sampleOptions) = Some \<lparr>x = 5, y = 5\<rparr>
   \<and> overlapsAny (sampleParticle 0 0 10 sampleOptions) \<lparr>x = 5, y = 5, z = 7\<rparr>
        [sampleParticle 5 5 10 sampleOptions]
   \<and> calcPosition (samplesAt 0 0)
        (sampleContainer [(''a'', noHooks), (''b'', positionPlugin)] [sampleParticle 5 5 10 sampleOptions])
        (sampleParticle 0 0 10 sampleOptions) None 7 0
      = Some (Inr \<lparr>x = 5, y = 5, z = 7\<rparr>)"
  using calcPosition_plugin_position_wins
    [of "sampleContainer [(''a'', noHooks), (''b'', positionPlugin)] [sampleParticle 5 5 10 sampleOptions]"
        "[(''a'', noHooks)]" "''b''" positionPlugin "[]" None "sampleParticle 0 0 10 sampleOptions"
        "\<lparr>x = 5, y = 5\<rparr>" "samplesAt 0 0" 7 0]
  by (simp add: sampleContainer_def pluginAnswer_def noHooks_def positionPlugin_def
      getDistance_def getRadius_def sampleParticle_def initFields_def Vector3d_create_def
      emptyNumericValueAnimation_def)

section \<open>Placement: the retry budget\<close>

lemma calcPosition_step:
  "pluginPosition (plugins c) pos p = None \<Longrightarrow>
   calcPosition rnd c p pos zi t =
     (case checkOverlap c p (placementCandidate (rnd t) c p pos zi) t of
        Inl e \<Rightarrow> Some (Inl e)
      | Inr ov \<Rightarrow> if ov then calcPosition rnd c p None zi (t + 1)
                  else Some (Inr (placementCandidate (rnd t) c p pos zi)))"
  by (subst calcPosition.simps) simp

lemma overlapsAny_iff:
  "overlapsAny p pos qs \<longleftrightarrow>
     (\<exists>q \<in> set qs. getDistance pos (position q) < getRadius p + getRadius q)"
  by (induction qs) auto

lemma checkOverlap_scan:
  "\<lbrakk>collisions_enable (options_collisions (options p));
    \<not> overlap_enable (collisions_overlap (options_collisions (options p)))\<rbrakk>
   \<Longrightarrow> checkOverlap c p pos t =
       (if 0 \<le> overlap_retries (collisions_overlap (options_collisions (options p)))
           \<and> overlap_retries (collisions_overlap (options_collisions (options p))) < int t
        then Inl PlacementExhausted
        else Inr (overlapsAny p pos (array (particles c))))"
  by (simp add: checkOverlap_def Let_def)

lemma calcPosition_attempts:
  assumes np: "\<And>pos'. pluginPosition (plugins c) pos' p = None"
    and ce: "collisions_enable (options_collisions (options p))"
    and od: "\<not> overlap_enable (collisions_overlap (options_collisions (options p)))"
    and before: "\<And>j. j < k \<Longrightarrow> attemptOverlaps rnd c p pos zi j \<and>
        \<not> (0 \<le> overlap_retries (collisions_overlap (options_collisions (options p)))
           \<and> overlap_retries (collisions_overlap (options_collisions (options p))) < int j)"
  shows "calcPosition rnd c p pos zi 0 =
     (if 0 \<le> overlap_retries (collisions_overlap (options_collisions (options p)))
         \<and> overlap_retries (collisions_overlap (options_collisions (options p))) < int k
      then Some (Inl PlacementExhausted)
      else if attemptOverlaps rnd c p pos zi k then calcPosition rnd c p None zi (k + 1)
      else Some (Inr (attemptPosition rnd c p pos zi k)))"
  using before
proof (induction k)
  case 0
  show ?case
    by (subst calcPosition_step [OF np])
      (auto simp: checkOverlap_scan [OF ce od] attemptOverlaps_def attemptPosition_def)
next
  case (Suc k)
  have "calcPosition rnd c p pos zi 0 = calcPosition rnd c p None zi (k + 1)"
    using Suc.IH Suc.prems by simp
  also have "\<dots> =
     (if 0 \<le> overlap_retries (collisions_overlap (options_collisions (options p)))
         \<and> overlap_retries (collisions_overlap (options_collisions (options p))) < int (Suc k)
      then Some (Inl PlacementExhausted)
      else if attemptOverlaps rnd c p pos zi (Suc k) then calcPosition rnd c p None zi (Suc k + 1)
      else Some (Inr (attemptPosition rnd c p pos zi (Suc k))))"
    by (subst calcPosition_step [OF np])
      (simp add: checkOverlap_scan [OF ce od] attemptOverlaps_def attemptPosition_def)
  finally show ?case .
qed

lemmas calcPosition_induct = calcPosition.raw_induct [rotated 1, consumes 1, case_names step]

lemma calcPosition_Inl_retries:
  "calcPosition rnd c p pos zi t = Some r \<Longrightarrow>
   overlap_retries (collisions_overlap (options_collisions (options p))) < 0 \<Longrightarrow> \<exists>q. r = Inr q"
proof (induction rnd c p pos zi t r rule: calcPosition_induct)
  case (step f rnd c p pos zi t r)
  then show ?case
    by (auto simp: checkOverlap_def Let_def split: option.splits sum.splits if_splits)
qed

lemma calcPosition_diverges_aux:
  "calcPosition rnd c p pos zi t = Some r \<Longrightarrow>
   (\<And>pos'. pluginPosition (plugins c) pos' p = None) \<Longrightarrow>
   collisions_enable (options_collisions (options p)) \<Longrightarrow>
   \<not> overlap_enable (collisions_overlap (options_collisions (options p))) \<Longrightarrow>
   overlap_retries (collisions_overlap (options_collisions (options p))) < 0 \<Longrightarrow>
   overlapsAny p (placementCandidate (rnd t) c p pos zi) (array (particles c)) \<Longrightarrow>
   (\<And>j. t < j \<Longrightarrow> overlapsAny p (placementCandidate (rnd j) c p None zi) (array (particles c))) \<Longrightarrow>
   False"
proof (induction rnd c p pos zi t r rule: calcPosition_induct)
  case (step f rnd c p pos zi t r)
  from step.hyps step.prems(1) [of pos] step.prems(2-5)
  have "f rnd c p None zi (t + 1) = Some r"
    by (simp add: checkOverlap_def Let_def)
  then show ?case
    using step.prems(1-4) by (rule step.IH) (simp_all add: step.prems(6))
qed

lemma calcPosition_Inr_free:
  "calcPosition rnd c p pos zi t = Some r \<Longrightarrow>
   (\<And>pos'. pluginPosition (plugins c) pos' p = None) \<Longrightarrow>
   collisions_enable (options_collisions (options p)) \<Longrightarrow>
   \<not> overlap_enable (collisions_overlap (options_collisions (options p))) \<Longrightarrow>
   r = Inr q \<Longrightarrow>
   \<not> overlapsAny p q (array (particles c))"
proof (induction rnd c p pos zi t r rule: calcPosition_induct)
  case (step f rnd c p pos zi t r)
  from step.hyps step.prems(1) [of pos] step.prems(2-4)
  consider "f rnd c p None zi (t + 1) = Some r"
    | "\<not> overlapsAny p q (array (particles c))"
    by (auto simp: checkOverlap_def Let_def split: if_splits)
  then show ?case
  proof cases
    case 1
    then show ?thesis using step.prems by (rule step.IH)
  next
    case 2
    then show ?thesis .
  qed
qed

lemma calcPosition_bounded:
  assumes np: "\<And>pos'. pluginPosition (plugins c) pos' p = None"
    and ce: "collisions_enable (options_collisions (options p))"
    and od: "\<not> overlap_enable (collisions_overlap (options_collisions (options p)))"
    and lim: "overlap_retries (collisions_overlap (options_collisions (options p))) = int N"
  shows "(\<forall>k\<le>N. attemptOverlaps rnd c p pos zi k) \<Longrightarrow>
           calcPosition rnd c p pos zi 0 = Some (Inl PlacementExhausted)"
    and "\<lbrakk>k \<le> N; \<not> attemptOverlaps rnd c p pos zi k; \<forall>j<k. attemptOverlaps rnd c p pos zi j\<rbrakk> \<Longrightarrow>
           calcPosition rnd c p pos zi 0 = Some (Inr (attemptPosition rnd c p pos zi k))"
proof -
  assume "\<forall>k\<le>N. attemptOverlaps rnd c p pos zi k"
  then show "calcPosition rnd c p pos zi 0 = Some (Inl PlacementExhausted)"
    using calcPosition_attempts [OF np ce od, of "Suc N" rnd pos zi] lim by simp
next
  assume "k \<le> N" "\<not> attemptOverlaps rnd c p pos zi k" "\<forall>j<k. attemptOverlaps rnd c p pos zi j"
  then show "calcPosition rnd c p pos zi 0 = Some (Inr (attemptPosition rnd c p pos zi k))"
    using calcPosition_attempts [OF np ce od, of k rnd pos zi] lim by simp
qed

lemma calcPosition_unbounded:
  assumes np: "\<And>pos'. pluginPosition (plugins c) pos' p = None"
    and ce: "collisions_enable (options_collisions (options p))"
    and od: "\<not> overlap_enable (collisions_overlap (options_collisions (options p)))"
    and neg: "overlap_retries (collisions_overlap (options_collisions (options p))) < 0"
  shows "(\<forall>k. attemptOverlaps rnd c p pos zi k) \<Longrightarrow> calcPosition rnd c p pos zi 0 = None"
    and "\<lbrakk>\<not> attemptOverlaps rnd c p pos zi k; \<forall>j<k. attemptOverlaps rnd c p pos zi j\<rbrakk> \<Longrightarrow>
           calcPosition rnd c p pos zi 0 = Some (Inr (attemptPosition rnd c p pos zi k))"
proof -
  assume all: "\<forall>k. attemptOverlaps rnd c p pos zi k"
  show "calcPosition rnd c p pos zi 0 = None"
  proof (cases "calcPosition rnd c p pos zi 0")
    case None
    then show ?thesis .
  next
    case (Some r)
    from all have "overlapsAny p (placementCandidate (rnd 0) c p pos zi) (array (particles c))"
      by (auto simp: attemptOverlaps_def attemptPosition_def dest: spec [of _ 0])
    moreover have "overlapsAny p (placementCandidate (rnd j) c p None zi) (array (particles c))"
      if "0 < j" for j
      using all [rule_format, of j] that by (simp add: attemptOverlaps_def attemptPosition_def)
    ultimately have False
      using calcPosition_diverges_aux [OF Some np ce od neg] by blast
    then show ?thesis ..
  qed
next
  assume "\<not> attemptOverlaps rnd c p pos zi k" "\<forall>j<k. attemptOverlaps rnd c p pos zi j"
  then show "calcPosition rnd c p pos zi 0 = Some (Inr (attemptPosition rnd c p pos zi k))"
    using calcPosition_attempts [OF np ce od, of k rnd pos zi] neg by simp
qed

lemma first_free_attempt:
  assumes "\<not> attemptOverlaps rnd c p pos zi k"
  shows "\<exists>m\<le>k. \<not> attemptOverlaps rnd c p pos zi m \<and> (\<forall>j<m. attemptOverlaps rnd c p pos zi j)"
proof -
  let ?m = "LEAST m. \<not> attemptOverlaps rnd c p pos zi m"
  have "\<not> attemptOverlaps rnd c p pos zi ?m" using assms by (rule LeastI)
  moreover have "?m \<le> k" using assms by (rule Least_le)
  moreover have "\<forall>j<?m. attemptOverlaps rnd c p pos zi j"
    using not_less_Least by blast
  ultimately show ?thesis by blast
qed

text \<open>
  Claim C1, as amended. Suppose no plugin answers the position hook, collision detection
  is on and overlap is not allowed. Attempt \<open>k\<close> is the candidate of the call whose
  \<^verbatim>\<open>tryCount\<close> is \<open>k\<close>.
  With a retry limit \<open>N \<ge> 0\<close>, placement always returns: it throws exactly when the
  \<open>N + 1\<close> attempts \<open>0, \<dots>, N\<close> all overlap a particle of the container (the call with
  \<^verbatim>\<open>tryCount\<close> \<open>N + 1\<close> throws before it scans), and otherwise it returns the first
  attempt that overlaps none.
  With a negative limit it never throws: it returns the first attempt that overlaps no
  particle, and does not return when every attempt overlaps.
  Every position returned is at a distance of at least the sum of the two radii from
  every particle of the container.
\<close>

theorem calcPosition_retry_budget:
  assumes np: "\<forall>pos'. pluginPosition (plugins c) pos' p = None"
    and ce: "collisions_enable (options_collisions (options p))"
    and od: "\<not> overlap_enable (collisions_overlap (options_collisions (options p)))"
  shows "(overlap_retries (collisions_overlap (options_collisions (options p))) = int N \<longrightarrow>
            calcPosition rnd c p pos zi 0 \<noteq> None
          \<and> (calcPosition rnd c p pos zi 0 = Some (Inl PlacementExhausted)
               \<longleftrightarrow> (\<forall>k\<le>N. attemptOverlaps rnd c p pos zi k))
          \<and> (\<forall>k\<le>N. \<not> attemptOverlaps rnd c p pos zi k \<and> (\<forall>j<k. attemptOverlaps rnd c p pos zi j)
                 \<longrightarrow> calcPosition rnd c p pos zi 0 = Some (Inr (attemptPosition rnd c p pos zi k))))
       \<and> (overlap_retries (collisions_overlap (options_collisions (options p))) < 0 \<longrightarrow>
            calcPosition rnd c p pos zi 0 \<noteq> Some (Inl PlacementExhausted)
          \<and> ((\<forall>k. attemptOverlaps rnd c p pos zi k) \<longrightarrow> calcPosition rnd c p pos zi 0 = None)
          \<and> (\<forall>k. \<not> attemptOverlaps rnd c p pos zi k \<and> (\<forall>j<k. attemptOverlaps rnd c p pos zi j)
                 \<longrightarrow> calcPosition rnd c p pos zi 0 = Some (Inr (attemptPosition rnd c p pos zi k))))
       \<and> (\<forall>q. calcPosition rnd c p pos zi 0 = Some (Inr q) \<longrightarrow>
            (\<forall>other \<in> set (array (particles c)).
               getRadius p + getRadius other \<le> getDistance q (position other)))"
proof (intro conjI impI allI)
  assume lim: "overlap_retries (collisions_overlap (options_collisions (options p))) = int N"
  note bounded = calcPosition_bounded [OF np [rule_format] ce od lim]
  have free: "calcPosition rnd c p pos zi 0 \<noteq> None
      \<and> calcPosition rnd c p pos zi 0 \<noteq> Some (Inl PlacementExhausted)"
    if "k \<le> N" "\<not> attemptOverlaps rnd c p pos zi k" for k
  proof -
    from that obtain m where "m \<le> N" "\<not> attemptOverlaps rnd c p pos zi m"
      "\<forall>j<m. attemptOverlaps rnd c p pos zi j"
      using first_free_attempt [of rnd c p pos zi k] by (meson order_trans)
    then have "calcPosition rnd c p pos zi 0 = Some (Inr (attemptPosition rnd c p pos zi m))"
      by (rule bounded(2))
    then show ?thesis by simp
  qed
  show "calcPosition rnd c p pos zi 0 \<noteq> None"
    using bounded(1) free by (cases "\<forall>k\<le>N. attemptOverlaps rnd c p pos zi k") auto
  show "calcPosition rnd c p pos zi 0 = Some (Inl PlacementExhausted)
          \<longleftrightarrow> (\<forall>k\<le>N. attemptOverlaps rnd c p pos zi k)"
    using bounded(1) free by blast
  fix k
  assume "k \<le> N" "\<not> attemptOverlaps rnd c p pos zi k \<and> (\<forall>j<k. attemptOverlaps rnd c p pos zi j)"
  then show "calcPosition rnd c p pos zi 0 = Some (Inr (attemptPosition rnd c p pos zi k))"
    using bounded(2) by blast
next
  assume neg: "overlap_retries (collisions_overlap (options_collisions (options p))) < 0"
  show "calcPosition rnd c p pos zi 0 \<noteq> Some (Inl PlacementExhausted)"
  proof
    assume "calcPosition rnd c p pos zi 0 = Some (Inl PlacementExhausted)"
    then have "\<exists>q. Inl PlacementExhausted = (Inr q :: Error + ICoordinates3d)"
      using neg by (rule calcPosition_Inl_retries)
    then show False by simp
  qed
next
  assume neg: "overlap_retries (collisions_overlap (options_collisions (options p))) < 0"
    and "\<forall>k. attemptOverlaps rnd c p pos zi k"
  then show "calcPosition rnd c p pos zi 0 = None"
    using calcPosition_unbounded(1) [OF np [rule_format] ce od] by blast
next
  fix k
  assume neg: "overlap_retries (collisions_overlap (options_collisions (options p))) < 0"
    and "\<not> attemptOverlaps rnd c p pos zi k \<and> (\<forall>j<k. attemptOverlaps rnd c p pos zi j)"
  then show "calcPosition rnd c p pos zi 0 = Some (Inr (attemptPosition rnd c p pos zi k))"
    using calcPosition_unbounded(2) [OF np [rule_format] ce od] by blast
next
  fix q
  assume "calcPosition rnd c p pos zi 0 = Some (Inr q)"
  then have "\<not> overlapsAny p q (array (particles c))"
    by (rule calcPosition_Inr_free [OF _ np [rule_format] ce od refl])
  then show "\<forall>other \<in> set (array (particles c)).
      getRadius p + getRadius other \<le> getDistance q (position other)"
    by (auto simp: overlapsAny_iff not_less)
qed

text \<open>
  The claim as stated fails when a plugin answers: collisions on, overlap off, retry
  limit 1, and the position returned lies on a particle of the container.
\<close>

lemmas sample_defs =
  sampleContainer_def sampleParticle_def sampleOptions_def withCollisions_def withOutMode_def
  withRetries_def withSplitCount_def withStartValue_def withZIndex_def withPixelRatio_def
  initFields_def emptyNumericValueAnimation_def noHooks_def
  positionPlugin_def samplesAt_def samplesThen_def Vector3d_create_def

lemmas placement_defs =
  attemptOverlaps_def attemptPosition_def placementCandidate_def fixPosition_def
  fixHorizontal_def fixVertical_def fixOutMode_def isInArray_def orDefault_def getRadius_def
  getDistance_def calcExactPositionOrRandomFromSize_def pluginAnswer_def Let_def


theorem calcPosition_retry_budget_counterexample:
  "collisions_enable (options_collisions (options (sampleParticle 0 0 10 sampleOptions)))
   \<and> \<not> overlap_enable (collisions_overlap (options_collisions (options (sampleParticle 0 0 10 sampleOptions))))
   \<and> overlap_retries (collisions_overlap (options_collisions (options (sampleParticle 0 0 10 sampleOptions)))) = 1
   \<and> calcPosition (samplesAt 0 0)
        (sampleContainer [(''b'', positionPlugin)] [sampleParticle 5 5 10 sampleOptions])
        (sampleParticle 0 0 10 sampleOptions) None 0 0
      = Some (Inr \<lparr>x = 5, y = 5, z = 0\<rparr>)
   \<and> getDistance \<lparr>x = 5, y = 5, z = 0\<rparr> (position (sampleParticle 5 5 10 sampleOptions))
        < getRadius (sampleParticle 0 0 10 sampleOptions) + getRadius (sampleParticle 5 5 10 sampleOptions)"
  by (subst calcPosition.simps) (simp add: sample_defs placement_defs)


text \<open>
  Instances: with limit 1 and every random point on the other particle, placement throws;
  with the second point away from it, placement returns that point; with limit \<open>-1\<close> and
  every point on the other particle, placement does not return.
\<close>

theorem calcPosition_retry_budget_witness:
  "calcPosition (samplesAt 0 0) (sampleContainer [] [sampleParticle 0 0 10 sampleOptions])
     (sampleParticle 0 0 10 (withOutMode (OutMode_other ''out'') sampleOptions)) None 0 0
     = Some (Inl PlacementExhausted)
   \<and> calcPosition (samplesThen 0 0 100 0) (sampleContainer [] [sampleParticle 0 0 10 sampleOptions])
     (sampleParticle 0 0 10 (withOutMode (OutMode_other ''out'') sampleOptions)) None 0 0
     = Some (Inr \<lparr>x = 100, y = 0, z = 0\<rparr>)
   \<and> getRadius (sampleParticle 0 0 10 (withOutMode (OutMode_other ''out'') sampleOptions))
       + getRadius (sampleParticle 0 0 10 sampleOptions)
     \<le> getDistance \<lparr>x = 100, y = 0, z = 0\<rparr> (position (sampleParticle 0 0 10 sampleOptions))
   \<and> calcPosition (samplesAt 0 0) (sampleContainer [] [sampleParticle 0 0 10 sampleOptions])
     (sampleParticle 0 0 10 (withRetries (- 1) (withOutMode (OutMode_other ''out'') sampleOptions))) None 0 0
     = None"
proof -
  let ?c = "sampleContainer [] [sampleParticle 0 0 10 sampleOptions]"
  let ?p = "sampleParticle 0 0 10 (withOutMode (OutMode_other ''out'') sampleOptions)"
  let ?q = "sampleParticle 0 0 10 (withRetries (- 1) (withOutMode (OutMode_other ''out'') sampleOptions))"
  have far: "\<not> sqrt 10000 < (20::real)"
    using real_sqrt_unique [of 100 10000] by simp
  have np: "\<forall>pos'. pluginPosition (plugins ?c) pos' ?p = None"
    "\<forall>pos'. pluginPosition (plugins ?c) pos' ?q = None"
    by (simp_all add: sampleContainer_def)
  have opts: "collisions_enable (options_collisions (options ?p))"
    "\<not> overlap_enable (collisions_overlap (options_collisions (options ?p)))"
    "overlap_retries (collisions_overlap (options_collisions (options ?p))) = int 1"
    "collisions_enable (options_collisions (options ?q))"
    "\<not> overlap_enable (collisions_overlap (options_collisions (options ?q)))"
    "overlap_retries (collisions_overlap (options_collisions (options ?q))) < 0"
    by (simp_all add: sample_defs)
  have same: "attemptOverlaps (samplesAt 0 0) ?c ?p None 0 k"
    "attemptOverlaps (samplesAt 0 0) ?c ?q None 0 k" for k
    by (simp_all add: sample_defs placement_defs)
  have moved: "attemptOverlaps (samplesThen 0 0 100 0) ?c ?p None 0 0"
    "\<not> attemptOverlaps (samplesThen 0 0 100 0) ?c ?p None 0 1"
    "attemptPosition (samplesThen 0 0 100 0) ?c ?p None 0 1 = \<lparr>x = 100, y = 0, z = 0\<rparr>"
    using far by (simp_all add: sample_defs placement_defs)
  have a: "calcPosition (samplesAt 0 0) ?c ?p None 0 0 = Some (Inl PlacementExhausted)"
    using calcPosition_retry_budget [OF np(1) opts(1,2), where N = 1
        and rnd = "samplesAt 0 0" and pos = None and zi = 0] opts(3) same(1)
    by blast
  have b: "calcPosition (samplesThen 0 0 100 0) ?c ?p None 0 0 = Some (Inr \<lparr>x = 100, y = 0, z = 0\<rparr>)"
    using calcPosition_retry_budget [OF np(1) opts(1,2), where N = 1
        and rnd = "samplesThen 0 0 100 0" and pos = None and zi = 0] opts(3) moved
    by (metis less_one order_refl)
  have b': "getRadius ?p + getRadius (sampleParticle 0 0 10 sampleOptions)
      \<le> getDistance \<lparr>x = 100, y = 0, z = 0\<rparr> (position (sampleParticle 0 0 10 sampleOptions))"
    using calcPosition_retry_budget [OF np(1) opts(1,2), where N = 1
        and rnd = "samplesThen 0 0 100 0" and pos = None and zi = 0] b
    by (simp add: sampleContainer_def)
  have c: "calcPosition (samplesAt 0 0) ?c ?q None 0 0 = None"
    using calcPosition_retry_budget [OF np(2) opts(4,5), where N = 1
        and rnd = "samplesAt 0 0" and pos = None and zi = 0] opts(6) same(2)
    by blast
  from a b b' c show ?thesis by simp
qed

section \<open>Placement: the out mode fix\<close>

lemma fixOutMode_checked:
  "outMode \<in> set checkModes \<Longrightarrow>
   fixOutMode outMode checkModes coord maxCoord rad =
     (if coord > maxCoord - rad * 2 then Some (- rad)
      else if coord < rad * 2 then Some rad else None)"
  by (simp add: fixOutMode_def isInArray_def)

lemma fixHorizontal_bounce:
  "fixHorizontal c rad OutMode_bounce pos =
     pos\<lparr>x := (if x pos > width (canvas_size c) - rad * 2 then x pos - rad
               else if x pos < rad * 2 then x pos + rad else x pos)\<rparr>"
  by (simp add: fixHorizontal_def fixOutMode_checked)

lemma fixVertical_bounce:
  "fixVertical c rad OutMode_bounce pos =
     pos\<lparr>y := (if y pos > height (canvas_size c) - rad * 2 then y pos - rad
               else if y pos < rad * 2 then y pos + rad else y pos)\<rparr>"
  by (simp add: fixVertical_def fixOutMode_checked)


text \<open>
  Claim C2, as amended. One fix, for one edge whose mode is bounce, moves a coordinate
  beyond \<open>max - 2 * radius\<close> inward by one radius, and otherwise a coordinate below
  \<open>2 * radius\<close> inward by one radius. Placement runs the fix once for each edge, left then
  right and top then bottom, each on the coordinate the fix before it left: with bounce
  on all four edges every coordinate goes through the fix twice.
\<close>

theorem calcPosition_bounce_every_edge:
  assumes "orDefault (outModes_left (options_outModes (options p)))
             (outModes_default (options_outModes (options p))) = OutMode_bounce"
    and "orDefault (outModes_right (options_outModes (options p)))
             (outModes_default (options_outModes (options p))) = OutMode_bounce"
    and "orDefault (outModes_top (options_outModes (options p)))
             (outModes_default (options_outModes (options p))) = OutMode_bounce"
    and "orDefault (outModes_bottom (options_outModes (options p)))
             (outModes_default (options_outModes (options p))) = OutMode_bounce"
    and "pluginPosition (plugins c) (Some pos) p = None"
    and "\<not> collisions_enable (options_collisions (options p))"
  shows "let r = getRadius p;
             edgeFix = (\<lambda>maxCoord coord.
                if coord > maxCoord - r * 2 then coord - r
                else if coord < r * 2 then coord + r else coord);
             w = width (canvas_size c);
             h = height (canvas_size c)
         in fixHorizontal c r OutMode_bounce \<lparr>x = x pos, y = y pos, z = zi\<rparr>
              = \<lparr>x = edgeFix w (x pos), y = y pos, z = zi\<rparr>
          \<and> fixVertical c r OutMode_bounce \<lparr>x = x pos, y = y pos, z = zi\<rparr>
              = \<lparr>x = x pos, y = edgeFix h (y pos), z = zi\<rparr>
          \<and> calcPosition rnd c p (Some pos) zi t =
              Some (Inr \<lparr>x = edgeFix w (edgeFix w (x pos)),
                         y = edgeFix h (edgeFix h (y pos)), z = zi\<rparr>)"
  using assms(1-4,6)
  by (simp add: calcPosition_step [OF assms(5)] checkOverlap_def placementCandidate_def
      fixPosition_def Let_def fixHorizontal_bounce fixVertical_bounce
      calcExactPositionOrRandomFromSize_def Vector3d_create_def)


text \<open>
  On a canvas of 800 by 600, a particle of radius 10 placed at \<open>(0, 0)\<close> is moved to
  \<open>(20, 20)\<close>: the fix for the left edge moves \<open>x\<close> to 10, which is still below 20, and
  the fix for the right edge moves it again.
\<close>

theorem calcPosition_bounce_every_edge_witness:
  "calcPosition (samplesAt 400 300) (sampleContainer [] [])
     (sampleParticle 0 0 10 (withCollisions False sampleOptions)) (Some \<lparr>x = 0, y = 0\<rparr>) 0 0
   = Some (Inr \<lparr>x = 20, y = 20, z = 0\<rparr>)"
  using calcPosition_bounce_every_edge
    [where p = "sampleParticle 0 0 10 (withCollisions False sampleOptions)"
       and c = "sampleContainer [] []" and pos = "\<lparr>x = 0, y = 0\<rparr>"
       and rnd = "samplesAt 400 300" and zi = 0 and t = 0]
  by (simp add: sampleContainer_def sampleParticle_def sampleOptions_def withCollisions_def
      initFields_def orDefault_def getRadius_def emptyNumericValueAnimation_def Let_def)


text \<open>So the particle is not moved to \<open>(10, 10)\<close>.\<close>

theorem calcPosition_bounce_counterexample:
  "calcPosition (samplesAt 400 300) (sampleContainer [] [])
     (sampleParticle 0 0 10 (withCollisions False sampleOptions)) (Some \<lparr>x = 0, y = 0\<rparr>) 0 0
   \<noteq> Some (Inr \<lparr>x = 10, y = 10, z = 0\<rparr>)"
  by (subst calcPosition.simps)
    (simp add: checkOverlap_def placementCandidate_def
      fixPosition_def Let_def fixHorizontal_bounce fixVertical_bounce
      calcExactPositionOrRandomFromSize_def Vector3d_create_def
      sampleContainer_def sampleParticle_def sampleOptions_def withCollisions_def
      initFields_def orDefault_def getRadius_def emptyNumericValueAnimation_def)

section \<open>Destruction and split: what one call does\<close>

lemma ceiling_step:
  assumes "real i < rate"
  shows "nat \<lceil>rate - real i\<rceil> = Suc (nat \<lceil>rate - real (i + 1)\<rceil>)"
proof -
  define c where "c = \<lceil>rate - real (i + 1)\<rceil>"
  have "\<lceil>rate - real i\<rceil> = c + 1"
    unfolding c_def by (simp add: algebra_simps) linarith
  moreover have "0 \<le> c"
    unfolding c_def using assms by (simp add: ceiling_le_iff)
  ultimately have "nat \<lceil>rate - real i\<rceil> = Suc (nat c)"
    by (simp add: Suc_nat_eq_nat_zadd1)
  then show ?thesis by (simp only: c_def)
qed

lemma splitLoop_result:
  "splitLoop i rate t w =
     w\<lparr>effects := effects w @ replicate (nat \<lceil>rate - real i\<rceil>) (Call_addSplitParticle (id_p (self w)) t)\<rparr>"
proof (induction i rate t w rule: splitLoop.induct)
  case (1 i rate t w)
  show ?case
  proof (cases "real i < rate")
    case True
    with "1.IH" show ?thesis
      by (subst splitLoop.simps) (simp add: ceiling_step replicate_app_Cons_same del: of_nat_add of_nat_Suc)
  next
    case False
    then have "nat \<lceil>rate - real i\<rceil> = 0" by simp
    with False show ?thesis by (subst splitLoop.simps) simp
  qed
qed

lemma split_p_result:
  "split_p r w =
     (let splitOptions = destroy_split (options_destroy (options (self w)));
          requests = replicate (nat \<lceil>getValue (split_rate splitOptions) (rnd_rate r)\<rceil>)
                       (Call_addSplitParticle (id_p (self w)) (particlesSplitOptions r splitOptions))
      in if split_count splitOptions < 0
         then w\<lparr>effects := effects w @ requests\<rparr>
         else if splitCount (self w) > split_count splitOptions
         then w\<lparr>self := (self w)\<lparr>splitCount := splitCount (self w) + 1\<rparr>\<rparr>
         else w\<lparr>self := (self w)\<lparr>splitCount := splitCount (self w) + 1\<rparr>,
                effects := effects w @ requests\<rparr>)"
  by (simp add: split_p_def splitLoop_result Let_def)

lemma split_p_flags:
  "destroyed (self (split_p r w)) = destroyed (self w)"
  "unbreakable (self (split_p r w)) = unbreakable (self w)"
  by (simp_all add: split_p_result Let_def)

lemma destroy_flags:
  "destroyed (self (destroy ov r w)) = (destroyed (self w) \<or> \<not> unbreakable (self w))"
  "unbreakable (self (destroy ov r w)) = unbreakable (self w)"
  by (auto simp: destroy_def Let_def split_p_flags)

lemma reset_flags:
  "destroyed (self (reset w)) = destroyed (self w)"
  "unbreakable (self (reset w)) = unbreakable (self w)"
  by (simp_all add: reset_def Let_def split: option.splits)

lemma draw_flags:
  "destroyed (self (draw w)) = destroyed (self w)"
  "unbreakable (self (draw w)) = unbreakable (self w)"
  by (simp_all add: draw_def)

lemma exec_unbreakable:
  "unbreakable (self (exec m w)) = unbreakable (self w)"
  by (cases m) (simp_all add: destroy_flags reset_flags draw_flags)

lemma exec_destroyed_mono:
  "destroyed (self w) \<Longrightarrow> destroyed (self (exec m w))"
  by (cases m) (simp_all add: destroy_flags reset_flags draw_flags)

lemma execAll_destroyed_mono:
  "destroyed (self w) \<Longrightarrow> destroyed (self (execAll ms w))"
  by (induction ms arbitrary: w) (simp_all add: exec_destroyed_mono)

lemma exec_unbreakable_destroyed:
  "unbreakable (self w) \<Longrightarrow> destroyed (self (exec m w)) = destroyed (self w)"
  by (cases m) (simp_all add: destroy_flags reset_flags draw_flags)

lemma selectShape_flags:
  "destroyed (selectShape r opts ov p) = destroyed p"
  "unbreakable (selectShape r opts ov p) = unbreakable p"
  "splitCount (selectShape r opts ov p) = splitCount p"
  by (simp_all add: selectShape_def Let_def split: option.splits)

lemma resolveOptions_flags:
  "destroyed (resolveOptions ext opts ov p) = destroyed p"
  "unbreakable (resolveOptions ext opts ov p) = unbreakable p"
  "splitCount (resolveOptions ext opts ov p) = splitCount p"
  by (simp_all add: resolveOptions_def Let_def)

lemma initSize_flags:
  "destroyed (initSize ext r c p) = destroyed p"
  "unbreakable (initSize ext r c p) = unbreakable p"
  "splitCount (initSize ext r c p) = splitCount p"
  by (simp_all add: initSize_def Let_def)

lemma Particle_new_fields:
  assumes "Particle_new ext r c i pos ov opts = Some (Inr w)"
  shows "\<not> destroyed (self w)" "\<not> unbreakable (self w)" "splitCount (self w) = 0"
  using assms
  by (auto simp: Particle_new_def Let_def selectShape_flags resolveOptions_flags initSize_flags
      initFields_def split: option.splits sum.splits)

lemmas destroy_defs =
  destroy_def split_p_def particlesSplitOptions_def getValue_def getRangeValue_def sampleWorld_def
  sampleSplitRandoms_def reset_def draw_def

text \<open>
  Claim C3, as amended. Take a particle whose destroy mode is split, with a split limit
  that is not negative, and a call of \<^verbatim>\<open>destroy\<close> that reaches \<^verbatim>\<open>split\<close> (the particle is
  neither unbreakable nor destroyed, and the call is no override). The call leaves
  \<^verbatim>\<open>splitCount\<close> one higher than it was, whatever it was. A particle whose \<^verbatim>\<open>splitCount\<close>
  is above the limit asks for no child; one whose \<^verbatim>\<open>splitCount\<close> is at the limit or below
  asks for one child for each \<open>i < rate\<close>, where \<open>rate\<close> is the value drawn for the split
  rate. The children are asked for after the \<^verbatim>\<open>particleDestroyed\<close> hooks.
\<close>

theorem destroy_split_fan_out:
  assumes "\<not> unbreakable (self w)" and "\<not> destroyed (self w)" and "override \<noteq> Some True"
    and "destroy_mode (options_destroy (options (self w))) = DestroyMode_split"
    and "0 \<le> split_count (destroy_split (options_destroy (options (self w))))"
  shows "splitCount (self (destroy override r w)) = splitCount (self w) + 1
       \<and> effects (destroy override r w) =
           effects w @ destroyedHooks (plugins (world_container w)) override
           @ (if splitCount (self w) > split_count (destroy_split (options_destroy (options (self w))))
              then []
              else replicate
                     (nat \<lceil>getValue (split_rate (destroy_split (options_destroy (options (self w)))))
                            (rnd_rate r)\<rceil>)
                     (Call_addSplitParticle (id_p (self w))
                        (particlesSplitOptions r (destroy_split (options_destroy (options (self w)))))))"
  using assms by (simp add: destroy_def split_p_result Let_def)

text \<open>
  The claim as stated fails at the limit: with limit 0, rate 3 and \<^verbatim>\<open>splitCount\<close> 0,
  \<^verbatim>\<open>destroy\<close> asks for three children and leaves \<^verbatim>\<open>splitCount\<close> at 1, above the limit.
\<close>

theorem destroy_split_fan_out_counterexample:
  "destroy_mode (options_destroy (options (sampleParticle 0 0 10 sampleOptions))) = DestroyMode_split
   \<and> split_count (destroy_split (options_destroy (options (sampleParticle 0 0 10 sampleOptions)))) = 0
   \<and> splitCount (sampleParticle 0 0 10 sampleOptions) = 0
   \<and> effects (destroy None sampleSplitRandoms
        (sampleWorld (sampleParticle 0 0 10 sampleOptions) (sampleContainer [] [])))
      = [Call_addSplitParticle 0 None, Call_addSplitParticle 0 None, Call_addSplitParticle 0 None]
   \<and> splitCount (self (destroy None sampleSplitRandoms
        (sampleWorld (sampleParticle 0 0 10 sampleOptions) (sampleContainer [] [])))) = 1"
  by (simp add: destroy_defs sample_defs splitLoop.simps Let_def)

text \<open>
  Instances, with a plugin that has the \<^verbatim>\<open>particleDestroyed\<close> hook: at the limit, and
  above it.
\<close>

theorem destroy_split_fan_out_witness:
  "effects (destroy None sampleSplitRandoms
      (sampleWorld (sampleParticle 0 0 10 sampleOptions) (sampleContainer [(''b'', positionPlugin)] [])))
     = [Hook_particleDestroyed ''b'' None, Call_addSplitParticle 0 None,
        Call_addSplitParticle 0 None, Call_addSplitParticle 0 None]
   \<and> splitCount (self (destroy None sampleSplitRandoms
      (sampleWorld (sampleParticle 0 0 10 sampleOptions) (sampleContainer [(''b'', positionPlugin)] []))))
     = 1
   \<and> effects (destroy None sampleSplitRandoms
      (sampleWorld ((sampleParticle 0 0 10 sampleOptions)\<lparr>splitCount := 1\<rparr>)
         (sampleContainer [(''b'', positionPlugin)] [])))
     = [Hook_particleDestroyed ''b'' None]
   \<and> splitCount (self (destroy None sampleSplitRandoms
      (sampleWorld ((sampleParticle 0 0 10 sampleOptions)\<lparr>splitCount := 1\<rparr>)
         (sampleContainer [(''b'', positionPlugin)] []))))
     = 2"
  using destroy_split_fan_out [where override = None and r = sampleSplitRandoms
      and w = "sampleWorld (sampleParticle 0 0 10 sampleOptions) (sampleContainer [(''b'', positionPlugin)] [])"]
    destroy_split_fan_out [where override = None and r = sampleSplitRandoms
      and w = "sampleWorld ((sampleParticle 0 0 10 sampleOptions)\<lparr>splitCount := 1\<rparr>)
                 (sampleContainer [(''b'', positionPlugin)] [])"]
  by (simp add: sampleWorld_def sample_defs sampleSplitRandoms_def getValue_def getRangeValue_def
      particlesSplitOptions_def numeral_3_eq_3)

text \<open>
  Claim C5. On a particle that is unbreakable, a call of \<^verbatim>\<open>destroy\<close> leaves \<^verbatim>\<open>destroyed\<close>
  as it was, whatever its argument; so does every sequence of calls of \<^verbatim>\<open>destroy\<close>,
  \<^verbatim>\<open>reset\<close> and \<^verbatim>\<open>draw\<close>, and the particle is unbreakable after it.
\<close>

theorem unbreakable_never_destroyed:
  assumes "unbreakable (self w)"
  shows "destroyed (self (destroy override r w)) = destroyed (self w)
       \<and> destroyed (self (execAll ms w)) = destroyed (self w)
       \<and> unbreakable (self (execAll ms w))"
proof -
  have "destroyed (self (execAll ms w)) = destroyed (self w) \<and> unbreakable (self (execAll ms w))"
    using assms
    by (induction ms arbitrary: w) (simp_all add: exec_unbreakable exec_unbreakable_destroyed)
  with assms show ?thesis by (simp add: destroy_flags)
qed

theorem unbreakable_never_destroyed_witness:
  "unbreakable (self (sampleWorld ((sampleParticle 0 0 10 sampleOptions)\<lparr>unbreakable := True\<rparr>)
      (sampleContainer [] [])))
   \<and> \<not> destroyed (self (destroy (Some True) sampleSplitRandoms
      (sampleWorld ((sampleParticle 0 0 10 sampleOptions)\<lparr>unbreakable := True\<rparr>)
        (sampleContainer [] []))))
   \<and> \<not> destroyed (self (execAll
        [Method_destroy None sampleSplitRandoms, Method_destroy (Some False) sampleSplitRandoms,
         Method_destroy (Some True) sampleSplitRandoms]
        (sampleWorld ((sampleParticle 0 0 10 sampleOptions)\<lparr>unbreakable := True\<rparr>)
          (sampleContainer [] []))))"
  using unbreakable_never_destroyed [where override = "Some True" and r = sampleSplitRandoms
      and ms = "[Method_destroy None sampleSplitRandoms, Method_destroy (Some False) sampleSplitRandoms,
         Method_destroy (Some True) sampleSplitRandoms]"
      and w = "sampleWorld ((sampleParticle 0 0 10 sampleOptions)\<lparr>unbreakable := True\<rparr>)
        (sampleContainer [] [])"]
  by (simp add: sampleWorld_def sampleParticle_def initFields_def)

text \<open>
  Claim C10. On a particle that is unbreakable, \<^verbatim>\<open>destroy\<close> changes nothing, also when
  its argument is \<^verbatim>\<open>true\<close>: the particle (\<^verbatim>\<open>destroyed\<close>, \<^verbatim>\<open>bubble.inRange\<close> and every
  other field), the container and the calls made out of the class are the same after the
  call, so no hook was called and no child asked for.
\<close>

theorem destroy_unbreakable_noop:
  assumes "unbreakable (self w)"
  shows "destroy override r w = w"
  using assms by (simp add: destroy_def)

text \<open>
  An instance: the particle is in the range of a bubble, the container has a plugin with
  the \<^verbatim>\<open>particleDestroyed\<close> hook, and the argument is \<^verbatim>\<open>true\<close>.
\<close>

theorem destroy_unbreakable_noop_witness:
  "destroy (Some True) sampleSplitRandoms
     (sampleWorld ((sampleParticle 0 0 10 sampleOptions)
          \<lparr>unbreakable := True, bubble := \<lparr>inRange = True, radius = None\<rparr>\<rparr>)
        (sampleContainer [(''b'', positionPlugin)] []))
   = \<lparr>self = (sampleParticle 0 0 10 sampleOptions)
          \<lparr>unbreakable := True, bubble := \<lparr>inRange = True, radius = None\<rparr>\<rparr>,
      world_container = sampleContainer [(''b'', positionPlugin)] [], effects = []\<rparr>
   \<and> particleDestroyed positionPlugin"
  using destroy_unbreakable_noop [where override = "Some True" and r = sampleSplitRandoms
      and w = "sampleWorld ((sampleParticle 0 0 10 sampleOptions)
          \<lparr>unbreakable := True, bubble := \<lparr>inRange = True, radius = None\<rparr>\<rparr>)
        (sampleContainer [(''b'', positionPlugin)] [])"]
  by (simp add: sampleWorld_def sampleParticle_def initFields_def positionPlugin_def)

section \<open>The life cycle of \<open>destroyed\<close>\<close>

lemma calcPosition_first_fit:
  "\<lbrakk>pluginPosition (plugins c) pos p = None;
    checkOverlap c p (placementCandidate (rnd t) c p pos zi) t = Inr False\<rbrakk>
   \<Longrightarrow> calcPosition rnd c p pos zi t = Some (Inr (placementCandidate (rnd t) c p pos zi))"
  by (subst calcPosition.simps) simp

lemmas construction_defs =
  Particle_new_def selectShape_def resolveOptions_def initSize_def trackZ_def pickShape_def
  itemFromArray_def js_rem_def elementAt_def loadShapeData_def truthyShape_def truthyShapeType_def
  getRangeValue_def getRangeMin_def getRangeMax_def randomInRange_def clamp_def
  sampleExternals_def sampleRandoms_def checkOverlap_def

lemma sample_construction:
  "Particle_new sampleExternals (sampleRandoms (samplesAt 400 300)) (sampleContainer [] []) 0 None None
     sampleOptions
   = Some (Inr
      \<lparr>self = \<lparr>id_p = 0, fill = True, close = True, lastPathTime = 0, destroyed = False,
                unbreakable = False, splitCount = 0, misplaced = False, ignoresResizeRatio = True,
                shape = Some ''circle'', shapeData = None, options = sampleOptions,
                size_p = \<lparr>anim_enable = True, anim_current = 2, anim_max = 10, anim_min = 2,
                           anim_loops = 0, anim_maxLoops = 0, anim_status = Some increasing,
                           anim_decay = Some 1, anim_velocity = Some (1 / 2)\<rparr>,
                opacity = None, bubble = \<lparr>inRange = False, radius = None\<rparr>,
                position = \<lparr>x = 400, y = 300, z = 0\<rparr>, spawning = False\<rparr>,
       world_container = sampleContainer [] [], effects = []\<rparr>)"
  by (simp add: construction_defs calcPosition_first_fit sample_defs placement_defs)

text \<open>
  Claim C4. A particle the constructor returns is not destroyed. Of the calls
  \<^verbatim>\<open>destroy\<close>, \<^verbatim>\<open>reset\<close> and \<^verbatim>\<open>draw\<close>, only \<^verbatim>\<open>destroy\<close> can make a particle destroyed;
  a destroyed particle stays destroyed under every sequence of these calls; \<^verbatim>\<open>destroy\<close>
  on a destroyed particle changes neither the particle nor the container and calls no
  hook; and a second \<^verbatim>\<open>destroy\<close>, with any argument, after a first leaves the state the
  first produced.
\<close>

theorem destroyed_lifecycle:
  "(Particle_new ext rc c i pos ovo opts = Some (Inr w0) \<longrightarrow> \<not> destroyed (self w0))
   \<and> (\<not> destroyed (self w) \<and> destroyed (self (exec m w)) \<longrightarrow>
        (\<exists>override r. m = Method_destroy override r))
   \<and> (destroyed (self w) \<longrightarrow> destroyed (self (execAll ms w)))
   \<and> (destroyed (self w) \<longrightarrow> destroy override r w = w)
   \<and> destroy override2 r2 (destroy override r w) = destroy override r w"
proof (intro conjI impI)
  assume "Particle_new ext rc c i pos ovo opts = Some (Inr w0)"
  then show "\<not> destroyed (self w0)" by (rule Particle_new_fields)
next
  assume "\<not> destroyed (self w) \<and> destroyed (self (exec m w))"
  then show "\<exists>override r. m = Method_destroy override r"
    by (cases m) (simp_all add: reset_flags draw_flags)
next
  assume "destroyed (self w)"
  then show "destroyed (self (execAll ms w))" by (rule execAll_destroyed_mono)
next
  assume "destroyed (self w)"
  then show "destroy override r w = w" by (simp add: destroy_def)
next
  show "destroy override2 r2 (destroy override r w) = destroy override r w"
  proof (cases "unbreakable (self w) \<or> destroyed (self w)")
    case True
    then show ?thesis by (simp add: destroy_def)
  next
    case False
    then have "destroyed (self (destroy override r w))" by (simp add: destroy_flags)
    then show ?thesis by (simp add: destroy_def [of override2])
  qed
qed

theorem destroyed_lifecycle_witness:
  "(\<exists>w0. Particle_new sampleExternals (sampleRandoms (samplesAt 400 300)) (sampleContainer [] []) 0
            None None sampleOptions = Some (Inr w0) \<and> \<not> destroyed (self w0))
   \<and> \<not> destroyed (self (sampleWorld (sampleParticle 0 0 10 sampleOptions)
          (sampleContainer [(''b'', positionPlugin)] [])))
   \<and> destroyed (self (exec (Method_destroy None sampleSplitRandoms)
          (sampleWorld (sampleParticle 0 0 10 sampleOptions)
             (sampleContainer [(''b'', positionPlugin)] []))))
   \<and> destroyed (self (sampleWorld ((sampleParticle 0 0 10 sampleOptions)\<lparr>destroyed := True\<rparr>)
          (sampleContainer [(''b'', positionPlugin)] [])))
   \<and> destroyed (self (execAll [Method_reset, Method_draw, Method_destroy None sampleSplitRandoms]
          (sampleWorld ((sampleParticle 0 0 10 sampleOptions)\<lparr>destroyed := True\<rparr>)
             (sampleContainer [(''b'', positionPlugin)] []))))
   \<and> effects (destroy None sampleSplitRandoms
          (sampleWorld ((sampleParticle 0 0 10 sampleOptions)\<lparr>destroyed := True\<rparr>)
             (sampleContainer [(''b'', positionPlugin)] []))) = []
   \<and> destroy (Some True) sampleSplitRandoms (destroy None sampleSplitRandoms
          (sampleWorld (sampleParticle 0 0 10 sampleOptions)
             (sampleContainer [(''b'', positionPlugin)] [])))
       = destroy None sampleSplitRandoms
          (sampleWorld (sampleParticle 0 0 10 sampleOptions)
             (sampleContainer [(''b'', positionPlugin)] []))"
proof -
  let ?w = "sampleWorld (sampleParticle 0 0 10 sampleOptions)
              (sampleContainer [(''b'', positionPlugin)] [])"
  let ?d = "sampleWorld ((sampleParticle 0 0 10 sampleOptions)\<lparr>destroyed := True\<rparr>)
              (sampleContainer [(''b'', positionPlugin)] [])"
  have fresh: "\<not> destroyed (self ?w)" "\<not> unbreakable (self ?w)" "destroyed (self ?d)"
    by (simp_all add: sampleWorld_def sampleParticle_def initFields_def)
  obtain w0 where new: "Particle_new sampleExternals (sampleRandoms (samplesAt 400 300))
      (sampleContainer [] []) 0 None None sampleOptions = Some (Inr w0)"
    using sample_construction by blast
  have a: "\<not> destroyed (self w0)"
    using destroyed_lifecycle [where ext = sampleExternals
        and rc = "sampleRandoms (samplesAt 400 300)" and c = "sampleContainer [] []" and i = 0
        and pos = None and ovo = None and opts = sampleOptions and ?w0.0 = w0] new
    by blast
  have b: "destroyed (self (exec (Method_destroy None sampleSplitRandoms) ?w))"
    using fresh by (simp add: destroy_flags)
  have c: "destroyed (self (execAll [Method_reset, Method_draw, Method_destroy None sampleSplitRandoms] ?d))"
    "destroy None sampleSplitRandoms ?d = ?d"
    using destroyed_lifecycle [where w = ?d and override = None and r = sampleSplitRandoms
        and ms = "[Method_reset, Method_draw, Method_destroy None sampleSplitRandoms]"] fresh(3)
    by blast+
  have d: "destroy (Some True) sampleSplitRandoms (destroy None sampleSplitRandoms ?w)
      = destroy None sampleSplitRandoms ?w"
    using destroyed_lifecycle [where w = ?w and override = None and r = sampleSplitRandoms
        and ?override2.0 = "Some True" and ?r2.0 = sampleSplitRandoms]
    by blast
  have e: "effects ?d = []" by (simp add: sampleWorld_def)
  from new a fresh b c d e show ?thesis by simp
qed

section \<open>Construction: where it returns, and the depth of the position\<close>

lemma fixHorizontal_z: "z (fixHorizontal c rad m pos) = z pos"
  by (simp add: fixHorizontal_def split: option.splits)

lemma fixVertical_z: "z (fixVertical c rad m pos) = z pos"
  by (simp add: fixVertical_def split: option.splits)

lemma fixPosition_z: "z (fixPosition c p pos) = z pos"
  by (simp add: fixPosition_def fixHorizontal_z fixVertical_z Let_def)

lemma placementCandidate_z: "z (placementCandidate sample c p pos zi) = zi"
  by (simp add: placementCandidate_def fixPosition_z Vector3d_create_def Let_def)

lemma calcPosition_z:
  "calcPosition rnd c p pos zi t = Some r \<Longrightarrow> r = Inr q \<Longrightarrow> z q = zi"
proof (induction rnd c p pos zi t r rule: calcPosition_induct)
  case (step f rnd c p pos zi t r)
  show ?case
  proof (cases "pluginPosition (plugins c) pos p")
    case (Some pluginPos)
    with step.hyps step.prems show ?thesis by (auto simp: Vector3d_create_def)
  next
    case None
    show ?thesis
    proof (cases "checkOverlap c p (placementCandidate (rnd t) c p pos zi) t")
      case (Inl e)
      with None step.hyps step.prems show ?thesis by simp
    next
      case (Inr ov)
      show ?thesis
      proof (cases ov)
        case True
        with None Inr step.hyps have "f rnd c p None zi (t + 1) = Some r" by simp
        then show ?thesis using step.prems by (rule step.IH)
      next
        case False
        with None Inr step.hyps step.prems show ?thesis by (auto simp: placementCandidate_z)
      qed
    qed
  qed
qed

lemma selectShape_options: "options (selectShape r opts ovo p) = options p"
  by (simp add: selectShape_def Let_def split: option.splits)

lemma initSize_options: "options (initSize ext r c p) = options p"
  by (simp add: initSize_def Let_def)

lemma Particle_new_z:
  assumes "Particle_new ext r c i pos ovo opts = Some (Inr w)"
  shows "z (position (self w))
     = clamp (getRangeValue
                (options_zIndex (options (resolveOptions ext opts ovo
                   (selectShape r opts ovo (initFields i opts)))))
                (rnd_zIndex r))
         0 (zLayers c)"
proof -
  let ?p2 = "resolveOptions ext opts ovo (selectShape r opts ovo (initFields i opts))"
  let ?zi = "clamp (getRangeValue (options_zIndex (options ?p2)) (rnd_zIndex r)) 0 (zLayers c)"
  let ?p4 = "(initSize ext r c ?p2)\<lparr>bubble := \<lparr>inRange = False, radius = None\<rparr>\<rparr>"
  from assms obtain q where q: "calcPosition (rnd_position r) c ?p4 pos ?zi 0 = Some (Inr q)"
    and w: "self w = ?p4\<lparr>position := q, spawning := False\<rparr>"
    by (auto simp: Particle_new_def Let_def split: option.splits sum.splits)
  from q have "z q = ?zi" by (rule calcPosition_z) simp
  with w show ?thesis by simp
qed

lemma Particle_new_returns:
  assumes "plugins c = []" and "array (particles c) = []"
  shows "\<exists>w. Particle_new ext r c i pos ovo opts = Some (Inr w)"
proof -
  have "checkOverlap c p q 0 = Inr False" for p q
    using assms(2) by (auto simp: checkOverlap_def Let_def)
  moreover have "pluginPosition (plugins c) pos p = None" for p
    using assms(1) by simp
  ultimately have "calcPosition rnd c p pos zi 0 = Some (Inr (placementCandidate (rnd 0) c p pos zi))"
    for rnd p zi
    by (subst calcPosition.simps) simp
  then show ?thesis by (simp add: Particle_new_def Let_def)
qed

section \<open>Construction: the size animation\<close>

text \<open>
  With the size animation enabled, the start value \<^verbatim>\<open>min\<close> gives the minimum of the size
  range times the pixel ratio and the status increasing; \<^verbatim>\<open>max\<close>, and every value the
  switch does not name, gives the maximum times the pixel ratio and the status decreasing;
  \<^verbatim>\<open>random\<close> gives a random value of the range that is already scaled, times the pixel
  ratio once more, and the status increasing exactly when the second draw is at least
  one half.
\<close>

lemma initSize_start:
  assumes "sizeAnimation_enable (size_animation (options_size (options p)))"
  shows "sizeAnimation_startValue (size_animation (options_size (options p))) = StartValueType_min \<Longrightarrow>
           anim_current (size_p (initSize ext r c p))
             = getRangeMin (size_range (options_size (options p))) * pixelRatio (retina c)
         \<and> anim_status (size_p (initSize ext r c p)) = Some increasing"
    and "sizeAnimation_startValue (size_animation (options_size (options p))) = StartValueType_max
           \<or> sizeAnimation_startValue (size_animation (options_size (options p))) = StartValueType_other s \<Longrightarrow>
           anim_current (size_p (initSize ext r c p))
             = getRangeMax (size_range (options_size (options p))) * pixelRatio (retina c)
         \<and> anim_status (size_p (initSize ext r c p)) = Some decreasing"
    and "sizeAnimation_startValue (size_animation (options_size (options p))) = StartValueType_random \<Longrightarrow>
           anim_current (size_p (initSize ext r c p))
             = randomInRange (getRangeMin (size_range (options_size (options p))) * pixelRatio (retina c))
                 (getRangeMax (size_range (options_size (options p))) * pixelRatio (retina c))
                 (rnd_sizeStart r) * pixelRatio (retina c)
         \<and> anim_status (size_p (initSize ext r c p))
             = Some (if rnd_sizeStatus r \<ge> 0.5 then increasing else decreasing)"
  using assms by (auto simp: initSize_def Let_def)

text \<open>
  Claim C6. The claim holds for the start values \<^verbatim>\<open>min\<close> and \<^verbatim>\<open>max\<close> (above; for the
  range 2 to 10 and pixel ratio 1 the constructed size is 2 and increasing, see
  \<open>sample_construction\<close>). For \<^verbatim>\<open>random\<close> the code multiplies by the pixel ratio a second
  time: with the range 2 to 10, pixel ratio 2 and the draw one half, the size state has
  minimum 4 and maximum 20 and the value 24, outside the range.
\<close>

theorem initSize_random_start_scaled_twice:
  "anim_min (size_p (initSize sampleExternals ((sampleRandoms (samplesAt 400 300))\<lparr>rnd_sizeStart := 1 / 2\<rparr>)
      (withPixelRatio 2 (sampleContainer [] []))
      (sampleParticle 0 0 0 (withStartValue StartValueType_random sampleOptions)))) = 4
   \<and> anim_max (size_p (initSize sampleExternals ((sampleRandoms (samplesAt 400 300))\<lparr>rnd_sizeStart := 1 / 2\<rparr>)
      (withPixelRatio 2 (sampleContainer [] []))
      (sampleParticle 0 0 0 (withStartValue StartValueType_random sampleOptions)))) = 20
   \<and> anim_current (size_p (initSize sampleExternals ((sampleRandoms (samplesAt 400 300))\<lparr>rnd_sizeStart := 1 / 2\<rparr>)
      (withPixelRatio 2 (sampleContainer [] []))
      (sampleParticle 0 0 0 (withStartValue StartValueType_random sampleOptions)))) = 24"
  by (simp add: initSize_def Let_def sampleExternals_def sampleRandoms_def withPixelRatio_def
      sampleContainer_def sampleParticle_def initFields_def withStartValue_def sampleOptions_def
      getRangeMin_def getRangeMax_def getRangeValue_def randomInRange_def)

section \<open>Construction: the shape\<close>

lemma itemFromArray_by_index:
  "\<lbrakk>xs \<noteq> []; 0 \<le> i\<rbrakk> \<Longrightarrow> itemFromArray xs (Some i) False u = Some (xs ! (nat i mod length xs))"
  by (simp add: itemFromArray_def js_rem_def elementAt_def nat_mod_distrib)

lemma selectShape_shape:
  assumes "shape_type (options_shape opts) = Multiple cands"
    and "\<not> options_reduceDuplicates opts"
    and "cands \<noteq> []" and "0 \<le> i"
    and "case ovo of None \<Rightarrow> True
         | Some ov \<Rightarrow> (case override_shape ov of None \<Rightarrow> True
                       | Some os \<Rightarrow> \<not> truthyShapeType (shapeOverride_type os))"
  shows "shape (selectShape r opts ovo (initFields i opts)) = Some (cands ! (nat i mod length cands))"
  using assms
  by (auto simp: selectShape_def Let_def pickShape_def itemFromArray_by_index initFields_def
      split: option.splits)

lemma resolveOptions_shape: "shape (resolveOptions ext opts ov p) = shape p"
  by (simp add: resolveOptions_def Let_def)

lemma initSize_shape: "shape (initSize ext r c p) = shape p"
  by (simp add: initSize_def Let_def)

lemma Particle_new_shape:
  "Particle_new ext r c i pos ovo opts = Some (Inr w) \<Longrightarrow>
   shape (self w) = shape (selectShape r opts ovo (initFields i opts))"
  by (auto simp: Particle_new_def Let_def resolveOptions_shape initSize_shape
      split: option.splits sum.splits)

lemma selectShape_override_array:
  assumes "\<not> options_reduceDuplicates opts" and "0 \<le> i"
    and "override_shape ov = Some os" and "shapeOverride_type os = Some (Multiple ocands)"
    and "ocands \<noteq> []"
  shows "shape (selectShape r opts (Some ov) (initFields i opts))
           = Some (ocands ! (nat i mod length ocands))"
  using assms
  by (simp add: selectShape_def Let_def pickShape_def itemFromArray_by_index initFields_def
      truthyShapeType_def truthyShape_def)

lemma selectShape_override_single:
  assumes "override_shape ov = Some os" and "shapeOverride_type os = Some (Single s)" and "s \<noteq> []"
  shows "shape (selectShape r opts (Some ov) (initFields i opts)) = Some s"
  using assms
  by (simp add: selectShape_def Let_def pickShape_def initFields_def truthyShapeType_def
      truthyShape_def)

lemma shapeAfter_selectShape:
  assumes "plugins c = []" and "array (particles c) = []"
  shows "shapeAfter (Particle_new ext r c i pos ovo opts)
           = shape (selectShape r opts ovo (initFields i opts))"
proof -
  obtain w where w: "Particle_new ext r c i pos ovo opts = Some (Inr w)"
    using Particle_new_returns [OF assms] by blast
  then show ?thesis using Particle_new_shape [OF w] by (simp add: shapeAfter_def)
qed

text \<open>
  Claim C7, as amended. Let "reduce duplicates" be off and the id not negative. The shape the
  constructor chooses comes from the shape type of the override options when they name one
  (an array, or a string that is not empty), and from the shape type of the particle
  options otherwise. From an array of candidates that is not empty it is the candidate at
  the index \<open>id mod length\<close>; a single shape type of the override options is the shape.
  The random draws, the container and the position do not enter.
\<close>

theorem shape_selected_by_id:
  assumes "\<not> options_reduceDuplicates opts" and "0 \<le> i"
  shows "((case ovo of None \<Rightarrow> True
           | Some ov \<Rightarrow> (case override_shape ov of None \<Rightarrow> True
                         | Some os \<Rightarrow> \<not> truthyShapeType (shapeOverride_type os)))
           \<and> shape_type (options_shape opts) = Multiple cands \<and> cands \<noteq> [] \<longrightarrow>
            shape (selectShape r opts ovo (initFields i opts))
              = Some (cands ! (nat i mod length cands)))
       \<and> (ovo = Some ov1 \<and> override_shape ov1 = Some os1
           \<and> shapeOverride_type os1 = Some (Multiple ocands) \<and> ocands \<noteq> [] \<longrightarrow>
            shape (selectShape r opts ovo (initFields i opts))
              = Some (ocands ! (nat i mod length ocands)))
       \<and> (ovo = Some ov1 \<and> override_shape ov1 = Some os1
           \<and> shapeOverride_type os1 = Some (Single s) \<and> s \<noteq> [] \<longrightarrow>
            shape (selectShape r opts ovo (initFields i opts)) = Some s)
       \<and> (Particle_new ext r c i pos ovo opts = Some (Inr w) \<longrightarrow>
            shape (self w) = shape (selectShape r opts ovo (initFields i opts)))"
proof (intro conjI impI)
  assume "(case ovo of None \<Rightarrow> True
           | Some ov \<Rightarrow> (case override_shape ov of None \<Rightarrow> True
                         | Some os \<Rightarrow> \<not> truthyShapeType (shapeOverride_type os)))
           \<and> shape_type (options_shape opts) = Multiple cands \<and> cands \<noteq> []"
  then show "shape (selectShape r opts ovo (initFields i opts))
      = Some (cands ! (nat i mod length cands))"
    using assms by (simp add: selectShape_shape)
next
  assume "ovo = Some ov1 \<and> override_shape ov1 = Some os1
      \<and> shapeOverride_type os1 = Some (Multiple ocands) \<and> ocands \<noteq> []"
  then show "shape (selectShape r opts ovo (initFields i opts))
      = Some (ocands ! (nat i mod length ocands))"
    using assms by (simp add: selectShape_override_array)
next
  assume "ovo = Some ov1 \<and> override_shape ov1 = Some os1
      \<and> shapeOverride_type os1 = Some (Single s) \<and> s \<noteq> []"
  then show "shape (selectShape r opts ovo (initFields i opts)) = Some s"
    by (simp add: selectShape_override_single)
next
  assume "Particle_new ext r c i pos ovo opts = Some (Inr w)"
  then show "shape (self w) = shape (selectShape r opts ovo (initFields i opts))"
    by (rule Particle_new_shape)
qed

text \<open>
  The claim as stated fails when the override options name a shape type: with the
  candidates circle and square, "reduce duplicates" off and the id 0, override options
  that name the shape triangle give a particle whose shape is triangle, not the
  candidate at the index 0.
\<close>

theorem shape_selected_by_id_counterexample:
  "shape_type (options_shape sampleOptions) = Multiple [''circle'', ''square'']
   \<and> \<not> options_reduceDuplicates sampleOptions
   \<and> [''circle'', ''square''] ! (nat 0 mod length [''circle'', ''square'']) = ''circle''
   \<and> shapeAfter (Particle_new sampleExternals (sampleRandoms (samplesAt 400 300))
        (sampleContainer [] []) 0 None (Some (sampleOverride (Single ''triangle''))) sampleOptions)
      = Some ''triangle''"
proof -
  have c: "plugins (sampleContainer [] []) = []" "array (particles (sampleContainer [] [])) = []"
    by (simp_all add: sampleContainer_def)
  have "shape (selectShape (sampleRandoms (samplesAt 400 300)) sampleOptions
      (Some (sampleOverride (Single ''triangle''))) (initFields 0 sampleOptions)) = Some ''triangle''"
    by (simp add: selectShape_override_single [where s = "''triangle''"
        and os = "\<lparr>shapeOverride_type = Some (Single ''triangle''),
              shapeOverride_loaded = \<lparr>shape_type = Single ''triangle'',
                                        shape_options = (\<lambda>k. None)\<rparr>\<rparr>"] sampleOverride_def)
  then show ?thesis
    by (simp add: shapeAfter_selectShape [OF c] sampleOptions_def)
qed

text \<open>
  Instances. Without a shape type in the override options and with the candidates circle
  and square, the ids 0 and 2 give circle and the id 1 gives square, also for the
  particle the constructor returns; override options that name the candidates star and
  line give star to the id 2; override options that name the shape triangle give triangle.
\<close>

theorem shape_selected_by_id_witness:
  "shape (selectShape (sampleRandoms (samplesAt 400 300)) sampleOptions None (initFields 0 sampleOptions))
     = Some ''circle''
   \<and> shape (selectShape (sampleRandoms (samplesAt 400 300)) sampleOptions None (initFields 1 sampleOptions))
     = Some ''square''
   \<and> shape (selectShape (sampleRandoms (samplesAt 400 300)) sampleOptions None (initFields 2 sampleOptions))
     = Some ''circle''
   \<and> shape (selectShape (sampleRandoms (samplesAt 400 300)) sampleOptions
        (Some (sampleOverride (Multiple [''star'', ''line'']))) (initFields 2 sampleOptions))
     = Some ''star''
   \<and> shape (selectShape (sampleRandoms (samplesAt 400 300)) sampleOptions
        (Some (sampleOverride (Single ''triangle''))) (initFields 2 sampleOptions))
     = Some ''triangle''
   \<and> (\<exists>w. Particle_new sampleExternals (sampleRandoms (samplesAt 400 300)) (sampleContainer [] []) 2
              None None sampleOptions = Some (Inr w)
          \<and> shape (self w) = Some ''circle'')"
proof -
  note T = shape_selected_by_id [where opts = sampleOptions
      and r = "sampleRandoms (samplesAt 400 300)" and ext = sampleExternals
      and c = "sampleContainer [] []" and pos = None]
  have h: "\<not> options_reduceDuplicates sampleOptions"
    and t: "shape_type (options_shape sampleOptions) = Multiple [''circle'', ''square'']"
    by (simp_all add: sampleOptions_def)
  have c: "plugins (sampleContainer [] []) = []" "array (particles (sampleContainer [] [])) = []"
    by (simp_all add: sampleContainer_def)
  obtain w where w: "Particle_new sampleExternals (sampleRandoms (samplesAt 400 300))
      (sampleContainer [] []) 2 None None sampleOptions = Some (Inr w)"
    using Particle_new_returns [OF c] by blast
  have plain:
    "shape (selectShape (sampleRandoms (samplesAt 400 300)) sampleOptions None (initFields 0 sampleOptions))
       = Some ''circle''"
    "shape (selectShape (sampleRandoms (samplesAt 400 300)) sampleOptions None (initFields 1 sampleOptions))
       = Some ''square''"
    "shape (selectShape (sampleRandoms (samplesAt 400 300)) sampleOptions None (initFields 2 sampleOptions))
       = Some ''circle''"
    using T [OF h, where i = 0 and ovo = None and cands = "[''circle'', ''square'']"]
      T [OF h, where i = 1 and ovo = None and cands = "[''circle'', ''square'']"]
      T [OF h, where i = 2 and ovo = None and cands = "[''circle'', ''square'']"] t
    by (simp_all add: eval_nat_numeral)
  have built: "shape (self w) = Some ''circle''"
    using T [OF h, where i = 2 and ovo = None and w = w] w plain(3) by simp
  have arr: "shape (selectShape (sampleRandoms (samplesAt 400 300)) sampleOptions
        (Some (sampleOverride (Multiple [''star'', ''line'']))) (initFields 2 sampleOptions))
     = Some ''star''"
    using T [OF h, where i = 2 and ovo = "Some (sampleOverride (Multiple [''star'', ''line'']))"
        and ?ov1.0 = "sampleOverride (Multiple [''star'', ''line''])"
        and ?os1.0 = "\<lparr>shapeOverride_type = Some (Multiple [''star'', ''line'']),
              shapeOverride_loaded = \<lparr>shape_type = Multiple [''star'', ''line''],
                                        shape_options = (\<lambda>k. None)\<rparr>\<rparr>"
        and ocands = "[''star'', ''line'']"]
    by (simp add: sampleOverride_def eval_nat_numeral)
  have single: "shape (selectShape (sampleRandoms (samplesAt 400 300)) sampleOptions
        (Some (sampleOverride (Single ''triangle''))) (initFields 2 sampleOptions))
     = Some ''triangle''"
    using T [OF h, where i = 2 and ovo = "Some (sampleOverride (Single ''triangle''))"
        and ?ov1.0 = "sampleOverride (Single ''triangle'')"
        and ?os1.0 = "\<lparr>shapeOverride_type = Some (Single ''triangle''),
              shapeOverride_loaded = \<lparr>shape_type = Single ''triangle'',
                                        shape_options = (\<lambda>k. None)\<rparr>\<rparr>"
        and s = "''triangle''"]
    by (simp add: sampleOverride_def)
  from plain arr single w built show ?thesis by simp
qed

section \<open>Construction: the z order of the particle set\<close>

lemma Particle_new_trackZ:
  assumes "Particle_new ext r c i pos ovo opts = Some (Inr w)"
  shows "world_container w = trackZ (self w) c"
  using assms
  by (auto simp: Particle_new_def Let_def trackZ_def split: option.splits sum.splits)

text \<open>
  Claim C8, as amended. When the constructor returns, the flag \<^verbatim>\<open>needsSort\<close> of the
  particle set holds exactly when it held before or the z recorded in \<^verbatim>\<open>lastZIndex\<close> was
  below the z of the new particle; \<^verbatim>\<open>lastZIndex\<close> is the z of the new particle; and the
  array of particles is as it was.
\<close>

theorem construction_tracks_last_z:
  assumes "Particle_new ext r c i pos ovo opts = Some (Inr w)"
  shows "needsSort (particles (world_container w))
           = (needsSort (particles c) \<or> lastZIndex (particles c) < z (position (self w)))
       \<and> lastZIndex (particles (world_container w)) = z (position (self w))
       \<and> array (particles (world_container w)) = array (particles c)"
  using Particle_new_trackZ [OF assms] by (simp add: trackZ_def)

text \<open>
  \<^verbatim>\<open>lastZIndex\<close> is the z of the last particle, not the greatest z seen: after a particle
  at z 5 and then one at z 3 it is 3.
\<close>

lemma sampleConstruct_result:
  assumes "plugins c = []" and "array (particles c) = []" and "0 \<le> v" and "v \<le> zLayers c"
  shows "sampleConstruct c i v
     = c\<lparr>particles := (particles c)
          \<lparr>needsSort := needsSort (particles c) \<or> lastZIndex (particles c) < v,
           lastZIndex := v\<rparr>\<rparr>"
proof -
  obtain w where w: "Particle_new sampleExternals (sampleRandoms (samplesAt 400 300)) c i None None
      (withZIndex v sampleOptions) = Some (Inr w)"
    using Particle_new_returns [OF assms(1,2)] by blast
  have "z (position (self w)) = v"
    using Particle_new_z [OF w] assms(3,4)
    by (simp add: resolveOptions_def sampleExternals_def withZIndex_def getRangeValue_def
        clamp_def Let_def)
  then show ?thesis
    using Particle_new_trackZ [OF w] w by (simp add: sampleConstruct_def containerAfter_def trackZ_def)
qed

theorem construction_tracks_last_z_counterexample:
  "lastZIndex (particles (sampleConstruct (sampleContainer [] []) 0 5)) = 5
   \<and> lastZIndex (particles (sampleConstruct (sampleConstruct (sampleContainer [] []) 0 5) 1 3)) = 3"
  by (simp add: sampleConstruct_result sampleContainer_def)

text \<open>An instance: a first particle at z 5 in a set whose last z is 0 sets the flag.\<close>

theorem construction_tracks_last_z_witness:
  "\<not> needsSort (particles (sampleContainer [] []))
   \<and> lastZIndex (particles (sampleContainer [] [])) = 0
   \<and> (\<exists>w. Particle_new sampleExternals (sampleRandoms (samplesAt 400 300)) (sampleContainer [] []) 0
              None None (withZIndex 5 sampleOptions) = Some (Inr w)
          \<and> z (position (self w)) = 5
          \<and> needsSort (particles (world_container w))
          \<and> lastZIndex (particles (world_container w)) = 5)"
proof -
  have c: "plugins (sampleContainer [] []) = []" "array (particles (sampleContainer [] [])) = []"
    "\<not> needsSort (particles (sampleContainer [] []))"
    "lastZIndex (particles (sampleContainer [] [])) = 0"
    "zLayers (sampleContainer [] []) = 100"
    by (simp_all add: sampleContainer_def)
  obtain w where w: "Particle_new sampleExternals (sampleRandoms (samplesAt 400 300))
      (sampleContainer [] []) 0 None None (withZIndex 5 sampleOptions) = Some (Inr w)"
    using Particle_new_returns [OF c(1,2)] by blast
  have zw: "z (position (self w)) = 5"
    using Particle_new_z [OF w] c(5)
    by (simp add: resolveOptions_def sampleExternals_def withZIndex_def getRangeValue_def
        clamp_def Let_def)
  from construction_tracks_last_z [OF w] zw w c(3,4) show ?thesis
    by auto
qed

end
